theory Spec2Isabelle
  imports Complex_Main
begin

section \<open>Overview\<close>

text \<open>
  A shallow embedding of the Cloudflare DNS record adapter. The sources hold the plugin in
  two variants. One works on the client package \<open>pkg/cloudflare\<close> (\<open>client.go\<close> with
  \<open>NormalizeName\<close>, \<open>CreateRecord\<close>, \<open>UpdateRecord\<close>, \<open>ListRecords\<close>, and the error
  classifier \<open>MapErrorCode\<close>, \<open>IsNotFound\<close>); its \<open>Plugin.Create\<close>, \<open>Plugin.Delete\<close>
  and \<open>Plugin.List\<close> are modelled here. The other holds the property codec
  (\<open>parseProperties\<close>, \<open>validateProperties\<close>, \<open>recordToProperties\<close>) and calls the
  provider's older SDK directly; of it the codec and \<open>Plugin.List\<close> are modelled (the
  latter as \<open>List_direct\<close>). Definitions come first, in the order of the layers; the
  theorems follow.
\<close>

section \<open>Go strings and errors\<close>

text \<open>
  A Go string is a byte sequence; it is modelled as a \<open>string\<close> (a list of characters),
  \<open>len\<close> as \<open>length\<close>, and slicing by \<open>take\<close> and \<open>drop\<close>.
  \<open>strings.HasSuffix\<close> and \<open>strings.TrimSuffix\<close> follow the standard library:
  \<^verbatim>\<open>len(s) >= len(suffix) && s[len(s)-len(suffix):] == suffix\<close> and
  \<^verbatim>\<open>if HasSuffix(s, suffix) { return s[:len(s)-len(suffix)] }; return s\<close>.
\<close>

definition HasSuffix :: "string \<Rightarrow> string \<Rightarrow> bool" where
  "HasSuffix s suffix =
     (length s \<ge> length suffix \<and> drop (length s - length suffix) s = suffix)"

definition TrimSuffix :: "string \<Rightarrow> string \<Rightarrow> string" where
  "TrimSuffix s suffix =
     (if HasSuffix s suffix then take (length s - length suffix) s else s)"

text \<open>
  A Go \<open>error\<close> value is either the SDK's \<open>*cf.Error\<close>, which carries the HTTP status
  code of the provider's answer, or a plain error (\<open>errors.New\<close>: transport failures
  and the adapter's own errors), or an error wrapping another one. The second argument of
  \<open>CfError\<close> and the first of the others is the text \<open>Error()\<close> prints. A nil error is
  \<open>None\<close> of \<open>go_error option\<close>.
\<close>

datatype go_error =
    CfError int string
  | ErrorString string
  | WrapError string go_error

definition errors_New :: "string \<Rightarrow> go_error" where
  "errors_New msg = ErrorString msg"

fun Error :: "go_error \<Rightarrow> string" where
  "Error (CfError sc msg) = msg"
| "Error (ErrorString msg) = msg"
| "Error (WrapError msg inner) = msg"

text \<open>
  \<open>errors.As(err, &apiErr)\<close> with \<open>apiErr\<close> of type \<open>*cf.Error\<close>: the first
  \<open>*cf.Error\<close> on the chain of wrapped errors, of which the callers read the status code.
\<close>

fun errors_As :: "go_error \<Rightarrow> int option" where
  "errors_As (CfError sc msg) = Some sc"
| "errors_As (ErrorString msg) = None"
| "errors_As (WrapError msg inner) = errors_As inner"

section \<open>Name normalizer (pkg/cloudflare/client.go)\<close>

definition NormalizeName :: "string \<Rightarrow> string \<Rightarrow> string" where
  "NormalizeName fqdn zoneDomain =
     (if fqdn = zoneDomain then ''@''
      else let suffix = ''.'' @ zoneDomain in
        if HasSuffix fqdn suffix then TrimSuffix fqdn suffix
        else fqdn)"

text \<open>
  Modelled from the spec: \<open>Denormalize(shortName, zoneApex)\<close> is not a function of the
  sources (the provider completes a short name to the fully-qualified one). The
  specification describes it: it appends \<open>"."\<close> and the apex, unless the short name is
  \<open>"@"\<close>, for which it returns the apex itself.
\<close>

definition Denormalize :: "string \<Rightarrow> string \<Rightarrow> string" where
  "Denormalize shortName zoneApex =
     (if shortName = ''@'' then zoneApex else shortName @ ''.'' @ zoneApex)"

section \<open>Error classifier (pkg/cloudflare, MapErrorCode and IsNotFound)\<close>

text \<open>
  The host's \<open>resource.OperationErrorCode\<close> is a string type; \<open>OperationErrorCodeEmpty\<close>
  is its empty string, which \<open>MapErrorCode\<close> returns for a nil error.
\<close>

datatype OperationErrorCode =
    OperationErrorCodeEmpty
  | OperationErrorCodeInvalidRequest
  | OperationErrorCodeInvalidCredentials
  | OperationErrorCodeAccessDenied
  | OperationErrorCodeNotFound
  | OperationErrorCodeThrottling
  | OperationErrorCodeServiceInternalError
  | OperationErrorCodeInternalFailure

definition MapErrorCode :: "go_error option \<Rightarrow> OperationErrorCode" where
  "MapErrorCode err =
     (case err of
        None \<Rightarrow> OperationErrorCodeEmpty
      | Some e \<Rightarrow>
          (case errors_As e of
             Some sc \<Rightarrow>
               if sc = 400 then OperationErrorCodeInvalidRequest
               else if sc = 401 then OperationErrorCodeInvalidCredentials
               else if sc = 403 then OperationErrorCodeAccessDenied
               else if sc = 404 then OperationErrorCodeNotFound
               else if sc = 429 then OperationErrorCodeThrottling
               else if sc = 500 \<or> sc = 502 \<or> sc = 503 \<or> sc = 504
                 then OperationErrorCodeServiceInternalError
               else OperationErrorCodeInternalFailure
           | None \<Rightarrow> OperationErrorCodeInternalFailure))"

definition IsNotFound :: "go_error option \<Rightarrow> bool" where
  "IsNotFound err =
     (case err of
        None \<Rightarrow> False
      | Some e \<Rightarrow> (case errors_As e of Some sc \<Rightarrow> sc = 404 | None \<Rightarrow> False))"

definition IsRateLimited :: "go_error option \<Rightarrow> bool" where
  "IsRateLimited err =
     (case err of
        None \<Rightarrow> False
      | Some e \<Rightarrow> (case errors_As e of Some sc \<Rightarrow> sc = 429 | None \<Rightarrow> False))"

section \<open>Property codec: validation (validateProperties)\<close>

record DNSRecordProperties =
  RecordType :: string
  Name :: string
  Content :: string
  TTL :: int
  Proxied :: bool
  Priority :: "int option"
  Comment :: "string option"

text \<open>
  The three tables are Go maps of type \<open>map[string]bool\<close>; indexing such a map with a
  key it does not hold yields \<open>false\<close>.
\<close>

definition map_index :: "(string \<times> bool) list \<Rightarrow> string \<Rightarrow> bool" where
  "map_index m k = (case map_of m k of Some b \<Rightarrow> b | None \<Rightarrow> False)"

definition supportedRecordTypes :: "(string \<times> bool) list" where
  "supportedRecordTypes =
     [(''A'', True), (''AAAA'', True), (''CNAME'', True), (''MX'', True),
      (''TXT'', True), (''NS'', True), (''CAA'', True), (''SRV'', True)]"

definition proxyableRecordTypes :: "(string \<times> bool) list" where
  "proxyableRecordTypes = [(''A'', True), (''AAAA'', True), (''CNAME'', True)]"

definition priorityRequiredTypes :: "(string \<times> bool) list" where
  "priorityRequiredTypes = [(''MX'', True), (''SRV'', True)]"

definition validateProperties :: "DNSRecordProperties \<Rightarrow> go_error option" where
  "validateProperties props =
     (if \<not> map_index supportedRecordTypes (DNSRecordProperties.RecordType props)
        then Some (ErrorString (''unsupported record type: '' @ DNSRecordProperties.RecordType props))
      else if map_index priorityRequiredTypes (DNSRecordProperties.RecordType props) \<and> DNSRecordProperties.Priority props = None
        then Some (ErrorString (''priority is required for '' @ DNSRecordProperties.RecordType props @ '' records''))
      else if DNSRecordProperties.Proxied props \<and> \<not> map_index proxyableRecordTypes (DNSRecordProperties.RecordType props)
        then Some (ErrorString ''proxied can only be set for A, AAAA, and CNAME records'')
      else None)"

section \<open>JSON payloads and encoding/json\<close>

text \<open>
  The orchestrator hands properties and target configurations over as
  \<open>json.RawMessage\<close>. The model starts behind the lexer: a payload is \<open>None\<close> when its
  bytes are no JSON text (\<open>json.Unmarshal\<close> answers with a syntax error), and
  \<open>Some j\<close> when they are the text of the JSON value \<open>j\<close>. An object keeps its members
  in their order, duplicates included. A number literal without fraction and exponent is
  \<open>JInt\<close>; any other number literal is \<open>JFloat\<close> with its text.
\<close>

datatype json =
    JNull
  | JBool bool
  | JInt int
  | JFloat string
  | JString string
  | JArray "json list"
  | JObject "(string \<times> json) list"

type_synonym RawMessage = "json option"

text \<open>
  \<open>json.Unmarshal\<close> finds the struct field for an object key by the exact name of its
  json tag and, failing that, by the folded name. Folding upper-cases the ASCII letters and
  maps every other rune to the least rune of its Unicode simple-folding orbit; the only
  such runes that fold to an ASCII letter are the Kelvin sign (U+212A, the bytes E2 84 AA),
  which folds to K, and the long s (U+017F, the bytes C5 BF), which folds to S. Every
  other non-ASCII rune folds to a non-ASCII rune and so names no field with an ASCII tag;
  the model leaves its bytes as they are.
\<close>

definition foldChar :: "char \<Rightarrow> char" where
  "foldChar c =
     (let n = (of_char c :: nat) in if 97 \<le> n \<and> n \<le> 122 then char_of (n - 32) else c)"

fun foldName :: "string \<Rightarrow> string" where
  "foldName (c # d # e # s) =
     (if c = CHR 0xE2 \<and> d = CHR 0x84 \<and> e = CHR 0xAA then CHR ''K'' # foldName s
      else if c = CHR 0xC5 \<and> d = CHR 0xBF then CHR ''S'' # foldName (e # s)
      else foldChar c # foldName (d # e # s))"
| "foldName [c, d] =
     (if c = CHR 0xC5 \<and> d = CHR 0xBF then [CHR ''S''] else [foldChar c, foldChar d])"
| "foldName [c] = [foldChar c]"
| "foldName [] = []"

definition find_field :: "string list \<Rightarrow> string \<Rightarrow> string option" where
  "find_field tags key =
     (if key \<in> set tags then Some key
      else find (\<lambda>f. foldName f = foldName key) tags)"

text \<open>
  Storing one JSON value into a field of a given Go type (\<open>literalStore\<close>, \<open>object\<close>
  and \<open>array\<close> of the decoder). \<open>null\<close> leaves a string, integer or boolean field as
  it is and sets a pointer field to nil; a value of another JSON type than the field's is
  an \<open>UnmarshalTypeError\<close>, as is an integer outside the field's 64 bits (\<open>int\<close> has
  64 bits on the platforms the plugin is built for). The decoder records the first such
  error, goes on, and returns it at the end; the callers drop the struct when there is an
  error, so the model returns the first error alone.
\<close>

definition UnmarshalTypeError :: "string \<Rightarrow> go_error" where
  "UnmarshalTypeError field =
     ErrorString (''json: cannot unmarshal value into Go struct field '' @ field)"

definition fits_int64 :: "int \<Rightarrow> bool" where
  "fits_int64 n = (- (2 ^ 63) \<le> n \<and> n < 2 ^ 63)"

fun store_string :: "string \<Rightarrow> json \<Rightarrow> string \<Rightarrow> go_error + string" where
  "store_string field (JString s) old = Inr s"
| "store_string field JNull old = Inr old"
| "store_string field v old = Inl (UnmarshalTypeError field)"

fun store_bool :: "string \<Rightarrow> json \<Rightarrow> bool \<Rightarrow> go_error + bool" where
  "store_bool field (JBool b) old = Inr b"
| "store_bool field JNull old = Inr old"
| "store_bool field v old = Inl (UnmarshalTypeError field)"

fun store_int :: "string \<Rightarrow> json \<Rightarrow> int \<Rightarrow> go_error + int" where
  "store_int field (JInt n) old =
     (if fits_int64 n then Inr n else Inl (UnmarshalTypeError field))"
| "store_int field JNull old = Inr old"
| "store_int field v old = Inl (UnmarshalTypeError field)"

fun store_string_ptr :: "string \<Rightarrow> json \<Rightarrow> string option \<Rightarrow> go_error + string option" where
  "store_string_ptr field (JString s) old = Inr (Some s)"
| "store_string_ptr field JNull old = Inr None"
| "store_string_ptr field v old = Inl (UnmarshalTypeError field)"

fun store_int_ptr :: "string \<Rightarrow> json \<Rightarrow> int option \<Rightarrow> go_error + int option" where
  "store_int_ptr field (JInt n) old =
     (if fits_int64 n then Inr (Some n) else Inl (UnmarshalTypeError field))"
| "store_int_ptr field JNull old = Inr None"
| "store_int_ptr field v old = Inl (UnmarshalTypeError field)"

text \<open>
  Decoding an object into a struct: the members in their order, each stored into the field
  its key names; a key that names no field is skipped. \<open>store\<close> is the struct's
  field-by-field store, \<open>tags\<close> the json tags of its fields.
\<close>

fun decode_members ::
  "string list \<Rightarrow> (string \<Rightarrow> json \<Rightarrow> 'a \<Rightarrow> go_error + 'a) \<Rightarrow> (string \<times> json) list \<Rightarrow> 'a \<Rightarrow> go_error + 'a"
where
  "decode_members tags store [] p = Inr p"
| "decode_members tags store ((key, v) # members) p =
     (case find_field tags key of
        None \<Rightarrow> decode_members tags store members p
      | Some f \<Rightarrow>
          (case store f v p of
             Inl err \<Rightarrow> Inl err
           | Inr p' \<Rightarrow> decode_members tags store members p'))"

text \<open>
  \<open>json.Unmarshal(raw, &p)\<close> for a struct \<open>p\<close>: a syntax error for bytes that are no
  JSON text; \<open>null\<close> leaves the struct as it is; an object is decoded member by member;
  any other JSON value is an \<open>UnmarshalTypeError\<close>.
\<close>

definition json_Unmarshal ::
  "string list \<Rightarrow> (string \<Rightarrow> json \<Rightarrow> 'a \<Rightarrow> go_error + 'a) \<Rightarrow> RawMessage \<Rightarrow> 'a \<Rightarrow> go_error + 'a"
where
  "json_Unmarshal tags store raw p =
     (case raw of
        None \<Rightarrow> Inl (ErrorString ''invalid character looking for beginning of value'')
      | Some JNull \<Rightarrow> Inr p
      | Some (JObject members) \<Rightarrow> decode_members tags store members p
      | Some v \<Rightarrow> Inl (UnmarshalTypeError []))"

section \<open>Property codec: parsing (parseProperties)\<close>

definition DNSRecordProperties_fields :: "string list" where
  "DNSRecordProperties_fields =
     [''record_type'', ''name'', ''content'', ''ttl'', ''proxied'', ''priority'', ''comment'']"

definition DNSRecordProperties_store ::
  "string \<Rightarrow> json \<Rightarrow> DNSRecordProperties \<Rightarrow> go_error + DNSRecordProperties"
where
  "DNSRecordProperties_store f v p =
     (if f = ''record_type'' then
        map_sum id (\<lambda>x. p\<lparr>DNSRecordProperties.RecordType := x\<rparr>)
          (store_string f v (DNSRecordProperties.RecordType p))
      else if f = ''name'' then
        map_sum id (\<lambda>x. p\<lparr>DNSRecordProperties.Name := x\<rparr>)
          (store_string f v (DNSRecordProperties.Name p))
      else if f = ''content'' then
        map_sum id (\<lambda>x. p\<lparr>DNSRecordProperties.Content := x\<rparr>)
          (store_string f v (DNSRecordProperties.Content p))
      else if f = ''ttl'' then
        map_sum id (\<lambda>x. p\<lparr>DNSRecordProperties.TTL := x\<rparr>)
          (store_int f v (DNSRecordProperties.TTL p))
      else if f = ''proxied'' then
        map_sum id (\<lambda>x. p\<lparr>DNSRecordProperties.Proxied := x\<rparr>)
          (store_bool f v (DNSRecordProperties.Proxied p))
      else if f = ''priority'' then
        map_sum id (\<lambda>x. p\<lparr>DNSRecordProperties.Priority := x\<rparr>)
          (store_int_ptr f v (DNSRecordProperties.Priority p))
      else if f = ''comment'' then
        map_sum id (\<lambda>x. p\<lparr>DNSRecordProperties.Comment := x\<rparr>)
          (store_string_ptr f v (DNSRecordProperties.Comment p))
      else Inr p)"

definition parseProperties :: "RawMessage \<Rightarrow> go_error + DNSRecordProperties" where
  "parseProperties propsJSON =
     (let props = \<lparr>DNSRecordProperties.RecordType = [], DNSRecordProperties.Name = [],
                   DNSRecordProperties.Content = [], DNSRecordProperties.TTL = 1,
                   DNSRecordProperties.Proxied = False, DNSRecordProperties.Priority = None,
                   DNSRecordProperties.Comment = None\<rparr>
      in case json_Unmarshal DNSRecordProperties_fields DNSRecordProperties_store propsJSON props of
           Inl err \<Rightarrow> Inl (WrapError ''failed to parse properties'' err)
         | Inr props \<Rightarrow>
             if DNSRecordProperties.RecordType props = []
               then Inl (ErrorString ''record_type is required'')
             else if DNSRecordProperties.Name props = []
               then Inl (ErrorString ''name is required'')
             else if DNSRecordProperties.Content props = []
               then Inl (ErrorString ''content is required'')
             else Inr props)"

section \<open>What a payload supplies\<close>

text \<open>
  The notions the statements about parsing are phrased in. The value a payload supplies
  for a field is that of the last member whose key names the field and whose value is not
  \<open>null\<close>; \<open>last_member\<close> is the last member whose key names the field, \<open>null\<close>
  or not (a pointer field is reset by \<open>null\<close>). A field is omitted when nothing is
  supplied for it.
\<close>

fun supplied :: "string list \<Rightarrow> string \<Rightarrow> (string \<times> json) list \<Rightarrow> json option" where
  "supplied tags f [] = None"
| "supplied tags f ((key, v) # members) =
     (case supplied tags f members of
        Some w \<Rightarrow> Some w
      | None \<Rightarrow> if find_field tags key = Some f \<and> v \<noteq> JNull then Some v else None)"

fun last_member :: "string list \<Rightarrow> string \<Rightarrow> (string \<times> json) list \<Rightarrow> json option" where
  "last_member tags f [] = None"
| "last_member tags f ((key, v) # members) =
     (case last_member tags f members of
        Some w \<Rightarrow> Some w
      | None \<Rightarrow> if find_field tags key = Some f then Some v else None)"

text \<open>
  A payload is mistyped when some member names a field and carries a value of a JSON type
  the field does not take.
\<close>

definition mistyped ::
  "string list \<Rightarrow> (string \<Rightarrow> json \<Rightarrow> bool) \<Rightarrow> (string \<times> json) list \<Rightarrow> bool" where
  "mistyped tags accepts members =
     list_ex (\<lambda>(key, v). case find_field tags key of None \<Rightarrow> False | Some f \<Rightarrow> \<not> accepts f v)
       members"

fun is_string_or_null :: "json \<Rightarrow> bool" where
  "is_string_or_null (JString s) = True"
| "is_string_or_null JNull = True"
| "is_string_or_null v = False"

fun is_int64_or_null :: "json \<Rightarrow> bool" where
  "is_int64_or_null (JInt n) = fits_int64 n"
| "is_int64_or_null JNull = True"
| "is_int64_or_null v = False"

fun is_bool_or_null :: "json \<Rightarrow> bool" where
  "is_bool_or_null (JBool b) = True"
| "is_bool_or_null JNull = True"
| "is_bool_or_null v = False"

definition DNSRecordProperties_accepts :: "string \<Rightarrow> json \<Rightarrow> bool" where
  "DNSRecordProperties_accepts f v =
     (if f \<in> {''record_type'', ''name'', ''content'', ''comment''} then is_string_or_null v
      else if f \<in> {''ttl'', ''priority''} then is_int64_or_null v
      else if f = ''proxied'' then is_bool_or_null v
      else True)"

text \<open>
  A properties payload has the wrong shape when it is JSON text that does not decode into
  the properties struct: a JSON value that is neither an object nor \<open>null\<close>, or an
  object that is mistyped. A required field is absent or empty when the payload supplies
  no non-empty string for it.
\<close>

definition wrong_shape :: "RawMessage \<Rightarrow> bool" where
  "wrong_shape raw =
     (case raw of
        None \<Rightarrow> False
      | Some JNull \<Rightarrow> False
      | Some (JObject members) \<Rightarrow>
          mistyped DNSRecordProperties_fields DNSRecordProperties_accepts members
      | Some v \<Rightarrow> True)"

definition absent_or_empty :: "string \<Rightarrow> RawMessage \<Rightarrow> bool" where
  "absent_or_empty f raw =
     (case raw of
        Some (JObject members) \<Rightarrow>
          (case supplied DNSRecordProperties_fields f members of
             Some (JString s) \<Rightarrow> s = []
           | _ \<Rightarrow> True)
      | _ \<Rightarrow> True)"

text \<open>The Go value an accepted JSON value stands for, by the type of the field.\<close>

fun string_of :: "json \<Rightarrow> string" where
  "string_of (JString s) = s"
| "string_of v = []"

fun int_of :: "json \<Rightarrow> int" where
  "int_of (JInt n) = n"
| "int_of v = 0"

fun bool_of :: "json \<Rightarrow> bool" where
  "bool_of (JBool b) = b"
| "bool_of v = False"

fun string_ptr_of :: "json \<Rightarrow> string option" where
  "string_ptr_of (JString s) = Some s"
| "string_ptr_of v = None"

fun int_ptr_of :: "json \<Rightarrow> int option" where
  "int_ptr_of (JInt n) = Some n"
| "int_ptr_of v = None"

text \<open>The struct \<open>parseProperties\<close> decodes into: the defaults.\<close>

definition parseProperties_defaults :: DNSRecordProperties where
  "parseProperties_defaults =
     \<lparr>DNSRecordProperties.RecordType = [], DNSRecordProperties.Name = [],
      DNSRecordProperties.Content = [], DNSRecordProperties.TTL = 1,
      DNSRecordProperties.Proxied = False, DNSRecordProperties.Priority = None,
      DNSRecordProperties.Comment = None\<rparr>"

text \<open>Example payloads.\<close>

definition payload_defaults :: RawMessage where
  "payload_defaults =
     Some (JObject [(''record_type'', JString ''A''), (''name'', JString ''www''),
                    (''content'', JString ''192.0.2.1'')])"

definition payload_no_name :: RawMessage where
  "payload_no_name =
     Some (JObject [(''record_type'', JString ''A''), (''content'', JString ''192.0.2.1'')])"

definition payload_ttl_string :: RawMessage where
  "payload_ttl_string =
     Some (JObject [(''record_type'', JString ''A''), (''name'', JString ''www''),
                    (''content'', JString ''192.0.2.1''), (''ttl'', JString ''300'')])"

section \<open>The provider's SDK, as the client sees it\<close>

text \<open>
  The SDK (cloudflare-go v4) is not part of the sources; its types are modelled by the
  fields the adapter reads and writes. A \<open>float64\<close> is a \<open>real\<close>: the conversion
  \<open>float64(n)\<close> of an integer is taken to be exact (it is for integers up to \<open>2^53\<close>),
  and \<open>int64(x)\<close> truncates towards zero (Go leaves the result open for a value outside
  the 64 bits; NaN and the infinities are not modelled).
\<close>

definition float64 :: "int \<Rightarrow> real" where
  "float64 n = of_int n"

definition int64 :: "real \<Rightarrow> int" where
  "int64 x = (if 0 \<le> x then \<lfloor>x\<rfloor> else \<lceil>x\<rceil>)"

record RecordResponse =
  ID :: string
  Name :: string
  Type :: string
  Content :: string
  Proxied :: bool
  Comment :: string
  TTL :: real
  Priority :: real

text \<open>
  The request bodies, one struct per record type, with the fields in the order of the
  struct literals of \<open>CreateRecord\<close>; the \<open>Type\<close> field of each is the constant of its
  record type and is carried by the constructor.
  \<open>ARecordParam\<close>, \<open>AAAARecordParam\<close>, \<open>CNAMERecordParam\<close>: name, content, TTL,
  proxied, comment. \<open>TXTRecordParam\<close>, \<open>NSRecordParam\<close>: name, content, TTL, comment.
  \<open>MXRecordParam\<close>: name, content, TTL, priority, comment.
\<close>

datatype RecordBody =
    ARecordParam string string real bool string
  | AAAARecordParam string string real bool string
  | CNAMERecordParam string string real bool string
  | TXTRecordParam string string real string
  | MXRecordParam string string real real string
  | NSRecordParam string string real string

record RecordNewParams =
  ZoneID :: string
  Body :: RecordBody

record RecordUpdateParams =
  ZoneID :: string
  Body :: RecordBody

record RecordListParams =
  ZoneID :: string
  PerPage :: real
  Page :: "real option"

text \<open>
  The page a list call returns: its items and the page index \<open>ResultInfo.Page\<close>, which
  \<open>ListRecords\<close> increments and hands to \<open>strconv.FormatInt\<close>, as an \<open>int64\<close>.
\<close>

record RecordListResponse =
  Result :: "RecordResponse list"
  ResultInfo_Page :: int

text \<open>
  The provider is opaque: \<open>cf_Client\<close> holds, for each endpoint the adapter calls, the
  answer of the provider to a request (the pair \<open>(resp, err)\<close> of the SDK as a sum).
  \<open>Records_Get\<close>, \<open>Records_Update\<close> and \<open>Records_Delete\<close> take the record ID first.
  The calls an operation issues are recorded as a list of \<open>api_call\<close>, returned beside
  its result.
\<close>

record cf_Client =
  Records_New :: "RecordNewParams \<Rightarrow> go_error + RecordResponse"
  Records_Get :: "string \<Rightarrow> string \<Rightarrow> go_error + RecordResponse"
  Records_Update :: "string \<Rightarrow> RecordUpdateParams \<Rightarrow> go_error + RecordResponse"
  Records_Delete :: "string \<Rightarrow> string \<Rightarrow> go_error option"
  Records_List :: "RecordListParams \<Rightarrow> go_error + RecordListResponse"
  Zones_Get :: "string \<Rightarrow> go_error + string"

datatype api_call =
    Call_Records_New RecordNewParams
  | Call_Records_Get string string
  | Call_Records_Update string RecordUpdateParams
  | Call_Records_Delete string string
  | Call_Records_List RecordListParams
  | Call_Zones_Get string

section \<open>The client (pkg/cloudflare/client.go)\<close>

record Client =
  api :: cf_Client

text \<open>
  The surroundings of a call: the value of the environment variable
  \<open>CLOUDFLARE_API_TOKEN\<close> and the provider behind the SDK client that
  \<open>cf.NewClient\<close> builds.
\<close>

record world =
  CLOUDFLARE_API_TOKEN :: string
  cloudflare :: cf_Client

definition NewClient :: "world \<Rightarrow> go_error + Client" where
  "NewClient w =
     (let token = CLOUDFLARE_API_TOKEN w in
      if token = [] then Inl (errors_New ''CLOUDFLARE_API_TOKEN environment variable not set'')
      else Inr \<lparr>api = cloudflare w\<rparr>)"

record DNSRecord =
  ID :: string
  ZoneID :: string
  Name :: string
  RecordType :: string
  Content :: string
  TTL :: int
  Proxied :: bool
  Comment :: string
  Priority :: "int option"

definition recordFromResponse :: "RecordResponse \<Rightarrow> string \<Rightarrow> DNSRecord" where
  "recordFromResponse resp zoneID =
     (let record = \<lparr>DNSRecord.ID = RecordResponse.ID resp,
                     DNSRecord.ZoneID = zoneID,
                     DNSRecord.Name = RecordResponse.Name resp,
                     DNSRecord.RecordType = RecordResponse.Type resp,
                     DNSRecord.Content = RecordResponse.Content resp,
                     DNSRecord.TTL = int64 (RecordResponse.TTL resp),
                     DNSRecord.Proxied = RecordResponse.Proxied resp,
                     DNSRecord.Comment = RecordResponse.Comment resp,
                     DNSRecord.Priority = None\<rparr>
      in if RecordResponse.Priority resp \<noteq> 0
         then record\<lparr>DNSRecord.Priority := Some (int64 (RecordResponse.Priority resp))\<rparr>
         else record)"

definition recordFromListItem :: "RecordResponse \<Rightarrow> string \<Rightarrow> DNSRecord" where
  "recordFromListItem r zoneID =
     (let record = \<lparr>DNSRecord.ID = RecordResponse.ID r,
                     DNSRecord.ZoneID = zoneID,
                     DNSRecord.Name = RecordResponse.Name r,
                     DNSRecord.RecordType = RecordResponse.Type r,
                     DNSRecord.Content = RecordResponse.Content r,
                     DNSRecord.TTL = int64 (RecordResponse.TTL r),
                     DNSRecord.Proxied = RecordResponse.Proxied r,
                     DNSRecord.Comment = RecordResponse.Comment r,
                     DNSRecord.Priority = None\<rparr>
      in if RecordResponse.Priority r \<noteq> 0
         then record\<lparr>DNSRecord.Priority := Some (int64 (RecordResponse.Priority r))\<rparr>
         else record)"

text \<open>
  The switch over \<open>record.RecordType\<close> that builds the request body. \<open>CreateRecord\<close>
  and \<open>UpdateRecord\<close> each have their own copy of it, the same case for case; the
  default case returns the error.
\<close>

definition record_body :: "DNSRecord \<Rightarrow> go_error + RecordBody" where
  "record_body record =
     (if DNSRecord.RecordType record = ''A'' then
        Inr (ARecordParam (DNSRecord.Name record) (DNSRecord.Content record)
               (float64 (DNSRecord.TTL record)) (DNSRecord.Proxied record)
               (DNSRecord.Comment record))
      else if DNSRecord.RecordType record = ''AAAA'' then
        Inr (AAAARecordParam (DNSRecord.Name record) (DNSRecord.Content record)
               (float64 (DNSRecord.TTL record)) (DNSRecord.Proxied record)
               (DNSRecord.Comment record))
      else if DNSRecord.RecordType record = ''CNAME'' then
        Inr (CNAMERecordParam (DNSRecord.Name record) (DNSRecord.Content record)
               (float64 (DNSRecord.TTL record)) (DNSRecord.Proxied record)
               (DNSRecord.Comment record))
      else if DNSRecord.RecordType record = ''TXT'' then
        Inr (TXTRecordParam (DNSRecord.Name record) (DNSRecord.Content record)
               (float64 (DNSRecord.TTL record)) (DNSRecord.Comment record))
      else if DNSRecord.RecordType record = ''MX'' then
        (let priority = (case DNSRecord.Priority record of
                           None \<Rightarrow> float64 10
                         | Some p \<Rightarrow> float64 p)
         in Inr (MXRecordParam (DNSRecord.Name record) (DNSRecord.Content record)
                   (float64 (DNSRecord.TTL record)) priority (DNSRecord.Comment record)))
      else if DNSRecord.RecordType record = ''NS'' then
        Inr (NSRecordParam (DNSRecord.Name record) (DNSRecord.Content record)
               (float64 (DNSRecord.TTL record)) (DNSRecord.Comment record))
      else Inl (errors_New (''unsupported record type: '' @ DNSRecord.RecordType record)))"

definition CreateRecord :: "Client \<Rightarrow> DNSRecord \<Rightarrow> (go_error + DNSRecord) \<times> api_call list" where
  "CreateRecord c record =
     (case record_body record of
        Inl err \<Rightarrow> (Inl err, [])
      | Inr body \<Rightarrow>
          (let params = \<lparr>RecordNewParams.ZoneID = DNSRecord.ZoneID record,
                          RecordNewParams.Body = body\<rparr>
           in case Records_New (api c) params of
                Inl err \<Rightarrow> (Inl err, [Call_Records_New params])
              | Inr resp \<Rightarrow>
                  (Inr (recordFromResponse resp (DNSRecord.ZoneID record)),
                   [Call_Records_New params])))"

definition UpdateRecord :: "Client \<Rightarrow> DNSRecord \<Rightarrow> (go_error + DNSRecord) \<times> api_call list" where
  "UpdateRecord c record =
     (case record_body record of
        Inl err \<Rightarrow> (Inl err, [])
      | Inr body \<Rightarrow>
          (let params = \<lparr>RecordUpdateParams.ZoneID = DNSRecord.ZoneID record,
                          RecordUpdateParams.Body = body\<rparr>
           in case Records_Update (api c) (DNSRecord.ID record) params of
                Inl err \<Rightarrow> (Inl err, [Call_Records_Update (DNSRecord.ID record) params])
              | Inr resp \<Rightarrow>
                  (Inr (recordFromResponse resp (DNSRecord.ZoneID record)),
                   [Call_Records_Update (DNSRecord.ID record) params])))"

definition DeleteRecord :: "Client \<Rightarrow> string \<Rightarrow> string \<Rightarrow> go_error option \<times> api_call list" where
  "DeleteRecord c zoneID recordID =
     (Records_Delete (api c) recordID zoneID, [Call_Records_Delete recordID zoneID])"

text \<open>
  \<open>strconv.FormatInt(n, 10)\<close>: the decimal digits of \<open>n\<close>, after a minus sign when
  \<open>n\<close> is negative. \<open>wrap_int64\<close> is the 64-bit two's complement value of an integer:
  what \<open>Page + 1\<close> evaluates to in \<open>int64\<close>.
\<close>

definition digit_char :: "nat \<Rightarrow> char" where
  "digit_char d = char_of (48 + d)"

fun decimal :: "nat \<Rightarrow> string" where
  "decimal n = (if n < 10 then [digit_char n] else decimal (n div 10) @ [digit_char (n mod 10)])"

declare decimal.simps [simp del]

definition FormatInt :: "int \<Rightarrow> string" where
  "FormatInt n = (if n < 0 then CHR ''-'' # decimal (nat (- n)) else decimal (nat n))"

definition wrap_int64 :: "int \<Rightarrow> int" where
  "wrap_int64 n = (n + 2 ^ 63) mod 2 ^ 64 - 2 ^ 63"

text \<open>
  \<open>ListRecords\<close>. \<open>strconv.ParseFloat\<close> is the library's; it is the parameter
  \<open>ParseFloat\<close>, of which the function uses the value when there is no error.
  The page size is the one requested when that is positive and 100 otherwise, in
  \<open>params.PerPage\<close> and in the comparison with \<open>len(resp.Result)\<close> alike; the page
  is set in the request only for a token that parses to a number of at least 1.
\<close>

definition ListRecords ::
  "(string \<Rightarrow> go_error + real) \<Rightarrow> Client \<Rightarrow> string \<Rightarrow> string option \<Rightarrow> int \<Rightarrow>
     (go_error + DNSRecord list \<times> string option) \<times> api_call list"
where
  "ListRecords ParseFloat c zoneID pageToken pageSize =
     (let pageSize = (if pageSize > 0 then pageSize else 100);
          page = (case pageToken of
                    None \<Rightarrow> None
                  | Some t \<Rightarrow>
                      if t \<noteq> [] then
                        (case ParseFloat t of
                           Inr page \<Rightarrow> if page \<ge> 1 then Some page else None
                         | Inl err \<Rightarrow> None)
                      else None);
          params = \<lparr>RecordListParams.ZoneID = zoneID, PerPage = float64 pageSize,
                    Page = page\<rparr>
      in case Records_List (api c) params of
           Inl err \<Rightarrow> (Inl err, [Call_Records_List params])
         | Inr resp \<Rightarrow>
             (let records = map (\<lambda>r. recordFromListItem r zoneID) (Result resp);
                  nextToken =
                    (if int (length (Result resp)) = pageSize
                     then Some (FormatInt (wrap_int64 (ResultInfo_Page resp + 1)))
                     else None)
              in (Inr (records, nextToken), [Call_Records_List params])))"

section \<open>The plugin: requests and results of the host's SDK\<close>

text \<open>
  The request and result types belong to the host's plugin SDK, which is not part of the
  sources; they are modelled by the fields the plugin reads and sets. A result struct
  built without a field has the zero value there: the empty error code, empty strings, and
  for \<open>ResourceProperties\<close> no bytes at all (\<open>None\<close>). \<open>CreateResult\<close> and
  \<open>DeleteResult\<close> wrap a \<open>ProgressResult\<close> and are identified with it.
\<close>

datatype Operation = OperationCreate | OperationUpdate | OperationDelete | OperationCheckStatus

datatype OperationStatus = OperationStatusSuccess | OperationStatusFailure

record ProgressResult =
  Operation :: Operation
  OperationStatus :: OperationStatus
  ErrorCode :: OperationErrorCode
  StatusMessage :: string
  NativeID :: string
  ResourceProperties :: RawMessage

record CreateRequest =
  Properties :: RawMessage

record DeleteRequest =
  TargetConfig :: RawMessage
  NativeID :: string

record ListRequest =
  TargetConfig :: RawMessage
  PageToken :: "string option"
  PageSize :: int

record ListResult =
  NativeIDs :: "string list"
  NextPageToken :: "string option"

section \<open>The plugin on the client (Plugin.Create, Plugin.Delete, Plugin.List)\<close>

record targetConfig =
  ZoneID :: string

definition targetConfig_fields :: "string list" where
  "targetConfig_fields = [''zone_id'']"

definition targetConfig_store :: "string \<Rightarrow> json \<Rightarrow> targetConfig \<Rightarrow> go_error + targetConfig" where
  "targetConfig_store f v cfg =
     (if f = ''zone_id'' then
        map_sum id (\<lambda>x. cfg\<lparr>targetConfig.ZoneID := x\<rparr>) (store_string f v (targetConfig.ZoneID cfg))
      else Inr cfg)"

definition parseTargetConfig :: "RawMessage \<Rightarrow> go_error + targetConfig" where
  "parseTargetConfig raw =
     (let cfg = \<lparr>targetConfig.ZoneID = []\<rparr> in
      case json_Unmarshal targetConfig_fields targetConfig_store raw cfg of
        Inl err \<Rightarrow> Inl err
      | Inr cfg \<Rightarrow> Inr cfg)"

record dnsRecordProperties =
  ID :: string
  ZoneID :: string
  Name :: string
  RecordType :: string
  Content :: string
  TTL :: int
  Proxied :: bool
  Comment :: string
  Priority :: "int option"

definition dnsRecordProperties_fields :: "string list" where
  "dnsRecordProperties_fields =
     [''id'', ''zone_id'', ''name'', ''record_type'', ''content'', ''ttl'', ''proxied'',
      ''comment'', ''priority'']"

definition dnsRecordProperties_store ::
  "string \<Rightarrow> json \<Rightarrow> dnsRecordProperties \<Rightarrow> go_error + dnsRecordProperties"
where
  "dnsRecordProperties_store f v p =
     (if f = ''id'' then
        map_sum id (\<lambda>x. p\<lparr>dnsRecordProperties.ID := x\<rparr>)
          (store_string f v (dnsRecordProperties.ID p))
      else if f = ''zone_id'' then
        map_sum id (\<lambda>x. p\<lparr>dnsRecordProperties.ZoneID := x\<rparr>)
          (store_string f v (dnsRecordProperties.ZoneID p))
      else if f = ''name'' then
        map_sum id (\<lambda>x. p\<lparr>dnsRecordProperties.Name := x\<rparr>)
          (store_string f v (dnsRecordProperties.Name p))
      else if f = ''record_type'' then
        map_sum id (\<lambda>x. p\<lparr>dnsRecordProperties.RecordType := x\<rparr>)
          (store_string f v (dnsRecordProperties.RecordType p))
      else if f = ''content'' then
        map_sum id (\<lambda>x. p\<lparr>dnsRecordProperties.Content := x\<rparr>)
          (store_string f v (dnsRecordProperties.Content p))
      else if f = ''ttl'' then
        map_sum id (\<lambda>x. p\<lparr>dnsRecordProperties.TTL := x\<rparr>)
          (store_int f v (dnsRecordProperties.TTL p))
      else if f = ''proxied'' then
        map_sum id (\<lambda>x. p\<lparr>dnsRecordProperties.Proxied := x\<rparr>)
          (store_bool f v (dnsRecordProperties.Proxied p))
      else if f = ''comment'' then
        map_sum id (\<lambda>x. p\<lparr>dnsRecordProperties.Comment := x\<rparr>)
          (store_string f v (dnsRecordProperties.Comment p))
      else if f = ''priority'' then
        map_sum id (\<lambda>x. p\<lparr>dnsRecordProperties.Priority := x\<rparr>)
          (store_int_ptr f v (dnsRecordProperties.Priority p))
      else Inr p)"

text \<open>\<open>var props dnsRecordProperties\<close>: the zero value of the struct.\<close>

definition dnsRecordProperties_zero :: dnsRecordProperties where
  "dnsRecordProperties_zero =
     \<lparr>dnsRecordProperties.ID = [], dnsRecordProperties.ZoneID = [],
      dnsRecordProperties.Name = [], dnsRecordProperties.RecordType = [],
      dnsRecordProperties.Content = [], dnsRecordProperties.TTL = 0,
      dnsRecordProperties.Proxied = False, dnsRecordProperties.Comment = [],
      dnsRecordProperties.Priority = None\<rparr>"

text \<open>
  \<open>json.Marshal\<close> of a \<open>dnsRecordProperties\<close>: an object with the fields in the order
  of the struct; a field tagged \<open>omitempty\<close> is left out when it is the empty string or
  the nil pointer. Marshalling a struct of strings, integers and booleans has no error.
\<close>

definition json_Marshal :: "dnsRecordProperties \<Rightarrow> go_error + json" where
  "json_Marshal p =
     Inr (JObject
       ((if dnsRecordProperties.ID p = [] then [] else [(''id'', JString (dnsRecordProperties.ID p))]) @
        [(''zone_id'', JString (dnsRecordProperties.ZoneID p)),
         (''name'', JString (dnsRecordProperties.Name p)),
         (''record_type'', JString (dnsRecordProperties.RecordType p)),
         (''content'', JString (dnsRecordProperties.Content p)),
         (''ttl'', JInt (dnsRecordProperties.TTL p)),
         (''proxied'', JBool (dnsRecordProperties.Proxied p))] @
        (if dnsRecordProperties.Comment p = [] then []
         else [(''comment'', JString (dnsRecordProperties.Comment p))]) @
        (case dnsRecordProperties.Priority p of
           None \<Rightarrow> []
         | Some n \<Rightarrow> [(''priority'', JInt n)])))"

definition Create :: "world \<Rightarrow> CreateRequest \<Rightarrow> (ProgressResult \<times> go_error option) \<times> api_call list" where
  "Create w req =
     (case json_Unmarshal dnsRecordProperties_fields dnsRecordProperties_store
             (Properties req) dnsRecordProperties_zero of
        Inl err \<Rightarrow>
          ((\<lparr>Operation = OperationCreate,
              OperationStatus = OperationStatusFailure,
              ErrorCode = OperationErrorCodeInvalidRequest,
              StatusMessage = ''Failed to parse properties: '' @ Error err,
              NativeID = [], ResourceProperties = None\<rparr>, None), [])
      | Inr props \<Rightarrow>
          (case NewClient w of
             Inl err \<Rightarrow>
               ((\<lparr>Operation = OperationCreate,
                   OperationStatus = OperationStatusFailure,
                   ErrorCode = OperationErrorCodeInvalidCredentials,
                   StatusMessage = Error err,
                   NativeID = [], ResourceProperties = None\<rparr>, None), [])
           | Inr client \<Rightarrow>
               (let record = \<lparr>DNSRecord.ID = [],
                               DNSRecord.ZoneID = dnsRecordProperties.ZoneID props,
                               DNSRecord.Name = dnsRecordProperties.Name props,
                               DNSRecord.RecordType = dnsRecordProperties.RecordType props,
                               DNSRecord.Content = dnsRecordProperties.Content props,
                               DNSRecord.TTL = dnsRecordProperties.TTL props,
                               DNSRecord.Proxied = dnsRecordProperties.Proxied props,
                               DNSRecord.Comment = dnsRecordProperties.Comment props,
                               DNSRecord.Priority = dnsRecordProperties.Priority props\<rparr>
                in case CreateRecord client record of
                     (Inl err, calls) \<Rightarrow>
                       ((\<lparr>Operation = OperationCreate,
                           OperationStatus = OperationStatusFailure,
                           ErrorCode = MapErrorCode (Some err),
                           StatusMessage = Error err,
                           NativeID = [], ResourceProperties = None\<rparr>, None), calls)
                   | (Inr created, calls) \<Rightarrow>
                       (let createdProps =
                              \<lparr>dnsRecordProperties.ID = DNSRecord.ID created,
                               dnsRecordProperties.ZoneID = DNSRecord.ZoneID created,
                               dnsRecordProperties.Name = dnsRecordProperties.Name props,
                               dnsRecordProperties.RecordType = DNSRecord.RecordType created,
                               dnsRecordProperties.Content = DNSRecord.Content created,
                               dnsRecordProperties.TTL = DNSRecord.TTL created,
                               dnsRecordProperties.Proxied = DNSRecord.Proxied created,
                               dnsRecordProperties.Comment = DNSRecord.Comment created,
                               dnsRecordProperties.Priority = DNSRecord.Priority created\<rparr>
                        in case json_Marshal createdProps of
                             Inl err \<Rightarrow>
                               ((\<lparr>Operation = OperationCreate,
                                   OperationStatus = OperationStatusFailure,
                                   ErrorCode = OperationErrorCodeInternalFailure,
                                   StatusMessage = ''Failed to marshal properties: '' @ Error err,
                                   NativeID = [], ResourceProperties = None\<rparr>, None), calls)
                           | Inr propsJSON \<Rightarrow>
                               ((\<lparr>Operation = OperationCreate,
                                   OperationStatus = OperationStatusSuccess,
                                   ErrorCode = OperationErrorCodeEmpty,
                                   StatusMessage = [],
                                   NativeID = DNSRecord.ID created,
                                   ResourceProperties = Some propsJSON\<rparr>, None), calls)))))"

definition Delete :: "world \<Rightarrow> DeleteRequest \<Rightarrow> (ProgressResult \<times> go_error option) \<times> api_call list" where
  "Delete w req =
     (let zone_id_missing =
            ((\<lparr>Operation = OperationDelete,
                OperationStatus = OperationStatusFailure,
                ErrorCode = OperationErrorCodeInvalidRequest,
                StatusMessage = ''zone_id not found in target config'',
                NativeID = [], ResourceProperties = None\<rparr>, None), [])
      in case parseTargetConfig (DeleteRequest.TargetConfig req) of
           Inl err \<Rightarrow> zone_id_missing
         | Inr cfg \<Rightarrow>
             if targetConfig.ZoneID cfg = [] then zone_id_missing
             else
               (case NewClient w of
                  Inl err \<Rightarrow>
                    ((\<lparr>Operation = OperationDelete,
                        OperationStatus = OperationStatusFailure,
                        ErrorCode = OperationErrorCodeInvalidCredentials,
                        StatusMessage = Error err,
                        NativeID = [], ResourceProperties = None\<rparr>, None), [])
                | Inr client \<Rightarrow>
                    (case DeleteRecord client (targetConfig.ZoneID cfg) (DeleteRequest.NativeID req) of
                       (Some err, calls) \<Rightarrow>
                         if IsNotFound (Some err) then
                           ((\<lparr>Operation = OperationDelete,
                               OperationStatus = OperationStatusSuccess,
                               ErrorCode = OperationErrorCodeEmpty,
                               StatusMessage = [],
                               NativeID = [], ResourceProperties = None\<rparr>, None), calls)
                         else
                           ((\<lparr>Operation = OperationDelete,
                               OperationStatus = OperationStatusFailure,
                               ErrorCode = MapErrorCode (Some err),
                               StatusMessage = Error err,
                               NativeID = [], ResourceProperties = None\<rparr>, None), calls)
                     | (None, calls) \<Rightarrow>
                         ((\<lparr>Operation = OperationDelete,
                             OperationStatus = OperationStatusSuccess,
                             ErrorCode = OperationErrorCodeEmpty,
                             StatusMessage = [],
                             NativeID = [], ResourceProperties = None\<rparr>, None), calls))))"

definition List ::
  "(string \<Rightarrow> go_error + real) \<Rightarrow> world \<Rightarrow> ListRequest \<Rightarrow>
     (ListResult \<times> go_error option) \<times> api_call list"
where
  "List ParseFloat w req =
     (let empty = ((\<lparr>NativeIDs = [], NextPageToken = None\<rparr>, None), []) in
      case parseTargetConfig (ListRequest.TargetConfig req) of
        Inl err \<Rightarrow> empty
      | Inr cfg \<Rightarrow>
          if targetConfig.ZoneID cfg = [] then empty
          else
            (case NewClient w of
               Inl err \<Rightarrow> empty
             | Inr client \<Rightarrow>
                 (case ListRecords ParseFloat client (targetConfig.ZoneID cfg)
                         (PageToken req) (PageSize req) of
                    (Inl err, calls) \<Rightarrow>
                      ((\<lparr>NativeIDs = [], NextPageToken = None\<rparr>, None), calls)
                  | (Inr (records, nextToken), calls) \<Rightarrow>
                      ((\<lparr>NativeIDs = map DNSRecord.ID records,
                          NextPageToken = nextToken\<rparr>, None), calls))))"

section \<open>The plugin on the provider's older SDK: recordToProperties\<close>

text \<open>
  In the variant of the plugin that holds the property codec, the provider's record is the
  \<open>cloudflare.DNSRecord\<close> of the older SDK: \<open>Proxied\<close> is a \<open>*bool\<close>, \<open>Priority\<close>
  a \<open>*uint16\<close> (here an integer) and \<open>Comment\<close> a string.
\<close>

record cloudflare_DNSRecord =
  ID :: string
  Name :: string
  Type :: string
  Content :: string
  TTL :: int
  Proxied :: "bool option"
  Priority :: "int option"
  Comment :: string

definition recordToProperties :: "cloudflare_DNSRecord \<Rightarrow> string \<Rightarrow> DNSRecordProperties" where
  "recordToProperties record zoneName =
     (let name = cloudflare_DNSRecord.Name record;
          name = (if zoneName \<noteq> [] then
                    (let suffix = ''.'' @ zoneName;
                         name = TrimSuffix name suffix
                     in if name = zoneName then ''@'' else name)
                  else name);
          props = \<lparr>DNSRecordProperties.RecordType = cloudflare_DNSRecord.Type record,
                   DNSRecordProperties.Name = name,
                   DNSRecordProperties.Content = cloudflare_DNSRecord.Content record,
                   DNSRecordProperties.TTL = cloudflare_DNSRecord.TTL record,
                   DNSRecordProperties.Proxied = False,
                   DNSRecordProperties.Priority = None,
                   DNSRecordProperties.Comment = None\<rparr>;
          props = (case cloudflare_DNSRecord.Proxied record of
                     Some b \<Rightarrow> props\<lparr>DNSRecordProperties.Proxied := b\<rparr>
                   | None \<Rightarrow> props);
          props = (case cloudflare_DNSRecord.Priority record of
                     Some priority \<Rightarrow> props\<lparr>DNSRecordProperties.Priority := Some priority\<rparr>
                   | None \<Rightarrow> props);
          props = (if cloudflare_DNSRecord.Comment record \<noteq> []
                   then props\<lparr>DNSRecordProperties.Comment := Some (cloudflare_DNSRecord.Comment record)\<rparr>
                   else props)
      in props)"

section \<open>What the statements about the client and the plugin are phrased in\<close>

text \<open>The constant \<open>Type\<close> field of each request body struct.\<close>

fun RecordBody_Type :: "RecordBody \<Rightarrow> string" where
  "RecordBody_Type (ARecordParam name content ttl proxied comment) = ''A''"
| "RecordBody_Type (AAAARecordParam name content ttl proxied comment) = ''AAAA''"
| "RecordBody_Type (CNAMERecordParam name content ttl proxied comment) = ''CNAME''"
| "RecordBody_Type (TXTRecordParam name content ttl comment) = ''TXT''"
| "RecordBody_Type (MXRecordParam name content ttl priority comment) = ''MX''"
| "RecordBody_Type (NSRecordParam name content ttl comment) = ''NS''"

fun RecordBody_Name :: "RecordBody \<Rightarrow> string" where
  "RecordBody_Name (ARecordParam name content ttl proxied comment) = name"
| "RecordBody_Name (AAAARecordParam name content ttl proxied comment) = name"
| "RecordBody_Name (CNAMERecordParam name content ttl proxied comment) = name"
| "RecordBody_Name (TXTRecordParam name content ttl comment) = name"
| "RecordBody_Name (MXRecordParam name content ttl priority comment) = name"
| "RecordBody_Name (NSRecordParam name content ttl comment) = name"

fun RecordBody_Content :: "RecordBody \<Rightarrow> string" where
  "RecordBody_Content (ARecordParam name content ttl proxied comment) = content"
| "RecordBody_Content (AAAARecordParam name content ttl proxied comment) = content"
| "RecordBody_Content (CNAMERecordParam name content ttl proxied comment) = content"
| "RecordBody_Content (TXTRecordParam name content ttl comment) = content"
| "RecordBody_Content (MXRecordParam name content ttl priority comment) = content"
| "RecordBody_Content (NSRecordParam name content ttl comment) = content"

fun RecordBody_Priority :: "RecordBody \<Rightarrow> real" where
  "RecordBody_Priority (MXRecordParam name content ttl priority comment) = priority"
| "RecordBody_Priority body = 0"

definition dnsRecordProperties_accepts :: "string \<Rightarrow> json \<Rightarrow> bool" where
  "dnsRecordProperties_accepts f v =
     (if f \<in> {''id'', ''zone_id'', ''name'', ''record_type'', ''content'', ''comment''}
        then is_string_or_null v
      else if f \<in> {''ttl'', ''priority''} then is_int64_or_null v
      else if f = ''proxied'' then is_bool_or_null v
      else True)"

section \<open>An example provider\<close>

text \<open>
  The examples run the adapter against a provider that serves one zone, \<open>example.com\<close>
  with the zone ID \<open>zone-1\<close>, holding the records it is given. It answers a list
  request with the requested page of the records (pages count from 1; no page in the
  request means the first) and reports that page index; a new record gets the ID
  \<open>rec-new\<close> and is echoed with its fully-qualified name (the zone's name for the
  short name \<open>@\<close>); deleting or reading a record it does not hold is a 404 error.
\<close>

definition example_fqdn :: "string \<Rightarrow> string" where
  "example_fqdn name = (if name = ''@'' then ''example.com'' else name @ ''.example.com'')"

definition body_response :: "string \<Rightarrow> RecordBody \<Rightarrow> RecordResponse" where
  "body_response rid body =
     \<lparr>RecordResponse.ID = rid,
      RecordResponse.Name = example_fqdn (RecordBody_Name body),
      RecordResponse.Type = RecordBody_Type body,
      RecordResponse.Content = RecordBody_Content body,
      RecordResponse.Proxied = False,
      RecordResponse.Comment = [],
      RecordResponse.TTL = 1,
      RecordResponse.Priority = RecordBody_Priority body\<rparr>"

definition not_found :: go_error where
  "not_found = CfError 404 ''Record does not exist.''"

definition example_provider :: "RecordResponse list \<Rightarrow> cf_Client" where
  "example_provider recs =
     \<lparr>Records_New = (\<lambda>params. Inr (body_response ''rec-new'' (RecordNewParams.Body params))),
      Records_Get = (\<lambda>rid zone.
         case find (\<lambda>r. RecordResponse.ID r = rid) recs of
           Some r \<Rightarrow> Inr r
         | None \<Rightarrow> Inl not_found),
      Records_Update = (\<lambda>rid params.
         if rid \<in> set (map RecordResponse.ID recs)
         then Inr (body_response rid (RecordUpdateParams.Body params))
         else Inl not_found),
      Records_Delete = (\<lambda>rid zone.
         if rid \<in> set (map RecordResponse.ID recs) then None else Some not_found),
      Records_List = (\<lambda>params.
         let perPage = nat \<lfloor>PerPage params\<rfloor>;
             page = (case Page params of None \<Rightarrow> 1 | Some x \<Rightarrow> nat \<lfloor>x\<rfloor>)
         in Inr \<lparr>Result = take perPage (drop ((page - 1) * perPage) recs),
                 ResultInfo_Page = int page\<rparr>),
      Zones_Get = (\<lambda>zone. Inr ''example.com'')\<rparr>"

definition example_world :: "RecordResponse list \<Rightarrow> world" where
  "example_world recs = \<lparr>CLOUDFLARE_API_TOKEN = ''token'', cloudflare = example_provider recs\<rparr>"

definition example_record :: "string \<Rightarrow> string \<Rightarrow> RecordResponse" where
  "example_record rid name =
     \<lparr>RecordResponse.ID = rid,
      RecordResponse.Name = example_fqdn name,
      RecordResponse.Type = ''A'',
      RecordResponse.Content = ''192.0.2.1'',
      RecordResponse.Proxied = False,
      RecordResponse.Comment = [],
      RecordResponse.TTL = 1,
      RecordResponse.Priority = 0\<rparr>"

definition five_records :: "RecordResponse list" where
  "five_records =
     [example_record ''r1'' ''a'', example_record ''r2'' ''b'', example_record ''r3'' ''c'',
      example_record ''r4'' ''d'', example_record ''r5'' ''e'']"

text \<open>
  The part of \<open>strconv.ParseFloat\<close> that the tokens of \<open>ListRecords\<close> need: on a
  non-empty string of decimal digits, which is what \<open>FormatInt\<close> makes of a positive page
  index, it returns the number the digits denote. Every other string is an error here; the
  examples parse no other.
\<close>

definition is_digit :: "char \<Rightarrow> bool" where
  "is_digit c = (48 \<le> (of_char c :: nat) \<and> (of_char c :: nat) \<le> 57)"

definition decimal_ParseFloat :: "string \<Rightarrow> go_error + real" where
  "decimal_ParseFloat s =
     (if s \<noteq> [] \<and> list_all is_digit s
      then Inr (real (foldl (\<lambda>acc c. 10 * acc + (of_char c - 48)) 0 s))
      else Inl (ErrorString (''strconv.ParseFloat: parsing '' @ s @ '': invalid syntax'')))"

definition example_config :: RawMessage where
  "example_config = Some (JObject [(''zone_id'', JString ''zone-1'')])"

definition list_request :: "string option \<Rightarrow> int \<Rightarrow> ListRequest" where
  "list_request token pageSize =
     \<lparr>ListRequest.TargetConfig = example_config, PageToken = token, PageSize = pageSize\<rparr>"

section \<open>Example requests and records\<close>

definition mx_record :: DNSRecord where
  "mx_record = \<lparr>DNSRecord.ID = ''r1'', ZoneID = ''zone-1'', Name = ''@'', RecordType = ''MX'',
     Content = ''mail.example.com'', TTL = 1, Proxied = False, Comment = [], Priority = Some 10\<rparr>"

definition caa_record :: DNSRecord where
  "caa_record = \<lparr>DNSRecord.ID = ''r2'', ZoneID = ''zone-1'', Name = ''@'', RecordType = ''CAA'',
     Content = ''0 issue letsencrypt.org'', TTL = 1, Proxied = False, Comment = [], Priority = None\<rparr>"

definition example_client :: Client where
  "example_client = \<lparr>api = example_provider five_records\<rparr>"

definition outage_world :: world where
  "outage_world =
     \<lparr>CLOUDFLARE_API_TOKEN = ''token'',
      cloudflare = (example_provider five_records)
        \<lparr>Records_List := (\<lambda>params. Inl (CfError 503 ''Service Unavailable''))\<rparr>\<rparr>"

definition no_token_world :: world where
  "no_token_world = \<lparr>CLOUDFLARE_API_TOKEN = [], cloudflare = example_provider five_records\<rparr>"

definition delete_request :: "string \<Rightarrow> DeleteRequest" where
  "delete_request rid = \<lparr>DeleteRequest.TargetConfig = example_config, NativeID = rid\<rparr>"

definition delete_outage_world :: world where
  "delete_outage_world =
     \<lparr>CLOUDFLARE_API_TOKEN = ''token'',
      cloudflare = (example_provider five_records)
        \<lparr>Records_Delete := (\<lambda>rid zone. Some (CfError 503 ''Service Unavailable''))\<rparr>\<rparr>"


definition mx_response :: RecordResponse where
  "mx_response =
     \<lparr>RecordResponse.ID = ''r7'', Name = ''example.com'', Type = ''MX'',
      Content = ''mail.example.com'', Proxied = False, Comment = [], TTL = 300, Priority = 0\<rparr>"

definition apex_txt_record :: cloudflare_DNSRecord where
  "apex_txt_record =
     \<lparr>cloudflare_DNSRecord.ID = ''r8'', Name = ''example.com'', Type = ''TXT'',
      Content = ''v=spf1 -all'', TTL = 1, Proxied = None, Priority = None, Comment = []\<rparr>"

definition create_mx_request :: CreateRequest where
  "create_mx_request =
     \<lparr>Properties = Some (JObject
        [(''zone_id'', JString ''zone-1''), (''name'', JString ''@''),
         (''record_type'', JString ''MX''), (''content'', JString ''mail.example.com''),
         (''ttl'', JInt 300), (''priority'', JInt 0), (''comment'', JString [])])\<rparr>"

text \<open>Property sets for the validation examples.\<close>

definition mx_properties :: DNSRecordProperties where
  "mx_properties =
     \<lparr>DNSRecordProperties.RecordType = ''MX'', Name = ''@'', Content = ''mail.example.com'',
      TTL = 1, Proxied = False, Priority = Some 10, Comment = None\<rparr>"

definition srv_properties_without_priority :: DNSRecordProperties where
  "srv_properties_without_priority =
     \<lparr>DNSRecordProperties.RecordType = ''SRV'', Name = ''_sip._tcp'',
      Content = ''5 5060 sipserver.example.com'', TTL = 300, Proxied = False,
      Priority = None, Comment = None\<rparr>"

definition proxied_txt_properties :: DNSRecordProperties where
  "proxied_txt_properties =
     \<lparr>DNSRecordProperties.RecordType = ''TXT'', Name = ''@'', Content = ''v=spf1 -all'',
      TTL = 1, Proxied = True, Priority = None, Comment = None\<rparr>"

definition a_properties_with_priority :: DNSRecordProperties where
  "a_properties_with_priority =
     \<lparr>DNSRecordProperties.RecordType = ''A'', Name = ''www'', Content = ''192.0.2.1'',
      TTL = 1, Proxied = False, Priority = Some 10, Comment = None\<rparr>"

section \<open>The plugin on the provider's older SDK: Plugin.List\<close>

text \<open>
  The variant of the plugin that holds the property codec has functions of the same names
  as the client-based one; here they carry the suffix \<open>_direct\<close>, for they call the
  provider's older SDK directly. Its target configuration needs an API token besides the
  zone ID.
\<close>

record TargetConfig =
  APIToken :: string
  ZoneID :: string

definition TargetConfig_fields :: "string list" where
  "TargetConfig_fields = [''api_token'', ''zone_id'']"

definition TargetConfig_store :: "string \<Rightarrow> json \<Rightarrow> TargetConfig \<Rightarrow> go_error + TargetConfig" where
  "TargetConfig_store f v config =
     (if f = ''api_token'' then
        map_sum id (\<lambda>x. config\<lparr>TargetConfig.APIToken := x\<rparr>)
          (store_string f v (TargetConfig.APIToken config))
      else if f = ''zone_id'' then
        map_sum id (\<lambda>x. config\<lparr>TargetConfig.ZoneID := x\<rparr>)
          (store_string f v (TargetConfig.ZoneID config))
      else Inr config)"

definition parseTargetConfig_direct :: "RawMessage \<Rightarrow> go_error + TargetConfig" where
  "parseTargetConfig_direct configJSON =
     (let config = \<lparr>TargetConfig.APIToken = [], TargetConfig.ZoneID = []\<rparr> in
      case json_Unmarshal TargetConfig_fields TargetConfig_store configJSON config of
        Inl err \<Rightarrow> Inl (WrapError ''failed to parse target config'' err)
      | Inr config \<Rightarrow>
          if TargetConfig.APIToken config = []
            then Inl (ErrorString ''api_token is required in target config'')
          else if TargetConfig.ZoneID config = []
            then Inl (ErrorString ''zone_id is required in target config'')
          else Inr config)"

text \<open>
  The older SDK (cloudflare-go) is not part of the sources. Of its \<open>ResultInfo\<close> the
  plugin sets \<open>Page\<close> and \<open>PerPage\<close> in the request and reads \<open>Page\<close> and
  \<open>TotalPages\<close> of the answer, all of type \<open>int\<close>; \<open>ListDNSRecords\<close> takes the zone
  and the parameters and returns the records and a \<open>*ResultInfo\<close>, or an error.
  \<open>cloudflare.NewWithAPIToken\<close>, which \<open>createCloudflareClient\<close> calls, and
  \<open>fmt.Sscanf\<close> with the verb \<open>%d\<close> are parameters of the model: \<open>NewWithAPIToken\<close>
  gives the API for a token or an error, and \<open>Sscanf\<close> gives the integer the scan stores,
  if it stores one. \<open>fmt.Sprintf("%d", n)\<close> is the decimal form of \<open>n\<close>.
\<close>

record ResultInfo =
  Page :: int
  PerPage :: int
  TotalPages :: int

record ListDNSRecordsParams =
  ResultInfo :: ResultInfo

record cloudflare_API =
  ListDNSRecords ::
    "string \<Rightarrow> ListDNSRecordsParams \<Rightarrow> go_error + cloudflare_DNSRecord list \<times> ResultInfo option"

definition createCloudflareClient ::
  "(string \<Rightarrow> go_error + cloudflare_API) \<Rightarrow> TargetConfig \<Rightarrow> go_error + cloudflare_API"
where
  "createCloudflareClient NewWithAPIToken config = NewWithAPIToken (TargetConfig.APIToken config)"

definition List_direct ::
  "(string \<Rightarrow> int option) \<Rightarrow> (string \<Rightarrow> go_error + cloudflare_API) \<Rightarrow> ListRequest \<Rightarrow>
     ListResult \<times> go_error option"
where
  "List_direct Sscanf NewWithAPIToken req =
     (case parseTargetConfig_direct (ListRequest.TargetConfig req) of
        Inl err \<Rightarrow> (\<lparr>NativeIDs = [], NextPageToken = None\<rparr>, None)
      | Inr config \<Rightarrow>
          (case createCloudflareClient NewWithAPIToken config of
             Inl err \<Rightarrow> (\<lparr>NativeIDs = [], NextPageToken = None\<rparr>, None)
           | Inr client \<Rightarrow>
               (let pageSize = (if PageSize req > 0 then PageSize req else 100);
                    page = (case PageToken req of
                              None \<Rightarrow> 1
                            | Some t \<Rightarrow>
                                if t \<noteq> [] then (case Sscanf t of Some n \<Rightarrow> n | None \<Rightarrow> 1)
                                else 1)
                in case ListDNSRecords client (TargetConfig.ZoneID config)
                          \<lparr>ResultInfo = \<lparr>ResultInfo.Page = page, ResultInfo.PerPage = pageSize,
                                          TotalPages = 0\<rparr>\<rparr> of
                     Inl err \<Rightarrow> (\<lparr>NativeIDs = [], NextPageToken = None\<rparr>, None)
                   | Inr (records, resultInfo) \<Rightarrow>
                       (let nativeIDs = map cloudflare_DNSRecord.ID records;
                            nextPageToken =
                              (case resultInfo of
                                 None \<Rightarrow> None
                               | Some info \<Rightarrow>
                                   if ResultInfo.Page info < TotalPages info
                                   then Some (FormatInt (wrap_int64 (ResultInfo.Page info + 1)))
                                   else None)
                        in (\<lparr>NativeIDs = nativeIDs, NextPageToken = nextPageToken\<rparr>, None)))))"

section \<open>What the statements about listing are phrased in\<close>

text \<open>
  The effective page size of a list request: the requested one, or 100 when none is
  specified (a page size that is not positive). The page a token asks the client-based
  \<open>ListRecords\<close> for: none for a missing or empty token, none for a token that does not
  parse to a number of at least 1, and that number otherwise. The page a token asks the
  older \<open>List\<close> for: the integer scanned from it, and 1 when there is no token or
  nothing is scanned.
\<close>

definition effective_page_size :: "ListRequest \<Rightarrow> int" where
  "effective_page_size req = (if PageSize req > 0 then PageSize req else 100)"

definition requested_page :: "(string \<Rightarrow> go_error + real) \<Rightarrow> string option \<Rightarrow> real option" where
  "requested_page ParseFloat token =
     (case token of
        None \<Rightarrow> None
      | Some t \<Rightarrow>
          if t = [] then None
          else (case ParseFloat t of
                  Inl err \<Rightarrow> None
                | Inr page \<Rightarrow> if 1 \<le> page then Some page else None))"

definition requested_page_direct :: "(string \<Rightarrow> int option) \<Rightarrow> string option \<Rightarrow> int" where
  "requested_page_direct Sscanf token =
     (case token of
        None \<Rightarrow> 1
      | Some t \<Rightarrow> if t = [] then 1 else (case Sscanf t of None \<Rightarrow> 1 | Some n \<Rightarrow> n))"

section \<open>An example provider behind the older SDK\<close>

text \<open>
  It serves the records it is given page by page and reports, besides the page index, the
  number of pages the records fill. \<open>decimal_Sscanf\<close> is the part of \<open>Sscanf\<close> with
  \<open>%d\<close> that the plugin's own tokens need: a non-empty string of decimal digits scans
  to the number it denotes; of other strings the examples scan none.
\<close>

definition sdk_record :: "string \<Rightarrow> cloudflare_DNSRecord" where
  "sdk_record rid =
     \<lparr>cloudflare_DNSRecord.ID = rid, Name = ''www.example.com'', Type = ''A'',
      Content = ''192.0.2.1'', TTL = 1, Proxied = Some False, Priority = None, Comment = []\<rparr>"

definition four_sdk_records :: "cloudflare_DNSRecord list" where
  "four_sdk_records = [sdk_record ''r1'', sdk_record ''r2'', sdk_record ''r3'', sdk_record ''r4'']"

definition example_api :: "cloudflare_DNSRecord list \<Rightarrow> cloudflare_API" where
  "example_api recs =
     \<lparr>ListDNSRecords = (\<lambda>zone params.
        let perPage = nat (ResultInfo.PerPage (ResultInfo params));
            page = nat (ResultInfo.Page (ResultInfo params))
        in Inr (take perPage (drop ((page - 1) * perPage) recs),
                Some \<lparr>ResultInfo.Page = int page, ResultInfo.PerPage = int perPage,
                      TotalPages = int ((length recs + perPage - 1) div perPage)\<rparr>))\<rparr>"

definition example_NewWithAPIToken ::
  "cloudflare_DNSRecord list \<Rightarrow> string \<Rightarrow> go_error + cloudflare_API" where
  "example_NewWithAPIToken recs token = Inr (example_api recs)"

definition decimal_Sscanf :: "string \<Rightarrow> int option" where
  "decimal_Sscanf s =
     (if s \<noteq> [] \<and> list_all is_digit s
      then Some (int (foldl (\<lambda>acc c. 10 * acc + (of_char c - 48)) 0 s))
      else None)"

definition direct_config :: RawMessage where
  "direct_config =
     Some (JObject [(''api_token'', JString ''token''), (''zone_id'', JString ''zone-1'')])"

definition direct_list_request :: "string option \<Rightarrow> int \<Rightarrow> ListRequest" where
  "direct_list_request token pageSize =
     \<lparr>ListRequest.TargetConfig = direct_config, PageToken = token, PageSize = pageSize\<rparr>"

definition mx_zero_priority_record :: cloudflare_DNSRecord where
  "mx_zero_priority_record =
     \<lparr>cloudflare_DNSRecord.ID = ''r9'', Name = ''example.com'', Type = ''MX'',
      Content = ''mail.example.com'', TTL = 300, Proxied = None, Priority = Some 0,
      Comment = []\<rparr>"

definition hundred_records :: "RecordResponse list" where
  "hundred_records = replicate 100 (example_record ''r'' ''a'')"

section \<open>Theorems\<close>

subsection \<open>Name normalizer\<close>

lemma HasSuffix_append: "HasSuffix (x @ suf) suf"
  by (simp add: HasSuffix_def)

lemma TrimSuffix_append: "TrimSuffix (x @ suf) suf = x"
  by (simp add: TrimSuffix_def HasSuffix_append)

text \<open>
  Claim C5. Normalizing the denormalized form of a short name gives the short name back:
  \<open>NormalizeName (Denormalize x z) z = x\<close>. It holds for every short name \<open>x\<close>
  (the apex marker \<open>"@"\<close>, single labels, multi-label names) and every zone apex \<open>z\<close>,
  the non-empty ones included.
\<close>

theorem normalize_denormalize: "NormalizeName (Denormalize x z) z = x"
proof (cases "x = ''@''")
  case True
  then show ?thesis by (simp add: NormalizeName_def Denormalize_def)
next
  case False
  have ne: "x @ ''.'' @ z \<noteq> z"
  proof
    assume "x @ ''.'' @ z = z"
    then have "length (x @ ''.'' @ z) = length z" by simp
    then show False by simp
  qed
  have "HasSuffix (x @ ''.'' @ z) (''.'' @ z)"
    by (rule HasSuffix_append)
  moreover have "TrimSuffix (x @ ''.'' @ z) (''.'' @ z) = x"
    by (rule TrimSuffix_append)
  ultimately show ?thesis
    using False ne by (simp add: NormalizeName_def Denormalize_def Let_def)
qed

subsection \<open>Error classifier\<close>

text \<open>
  Claim C4, as the code has it. For a provider API error (an error with a \<open>*cf.Error\<close>
  on its chain) the classifier returns InvalidRequest for status 400, InvalidCredentials
  for 401, AccessDenied for 403, NotFound for 404, Throttling for 429,
  ServiceInternalError for the four statuses 500, 502, 503 and 504, and InternalFailure
  for every other status; an error that is no API error (a transport error) is an
  InternalFailure too.
\<close>

theorem MapErrorCode_classes:
  "(errors_As e = Some 400 \<longrightarrow> MapErrorCode (Some e) = OperationErrorCodeInvalidRequest) \<and>
   (errors_As e = Some 401 \<longrightarrow> MapErrorCode (Some e) = OperationErrorCodeInvalidCredentials) \<and>
   (errors_As e = Some 403 \<longrightarrow> MapErrorCode (Some e) = OperationErrorCodeAccessDenied) \<and>
   (errors_As e = Some 404 \<longrightarrow> MapErrorCode (Some e) = OperationErrorCodeNotFound) \<and>
   (errors_As e = Some 429 \<longrightarrow> MapErrorCode (Some e) = OperationErrorCodeThrottling) \<and>
   (errors_As e = Some sc \<and> sc \<in> {500, 502, 503, 504} \<longrightarrow>
      MapErrorCode (Some e) = OperationErrorCodeServiceInternalError) \<and>
   (errors_As e = Some sc \<and> sc \<notin> {400, 401, 403, 404, 429, 500, 502, 503, 504} \<longrightarrow>
      MapErrorCode (Some e) = OperationErrorCodeInternalFailure) \<and>
   (errors_As e = None \<longrightarrow> MapErrorCode (Some e) = OperationErrorCodeInternalFailure)"
  by (auto simp: MapErrorCode_def)

theorem MapErrorCode_classes_witness:
  "MapErrorCode (Some (CfError 503 ''service unavailable'')) =
     OperationErrorCodeServiceInternalError \<and>
   MapErrorCode (Some (WrapError ''list failed'' (CfError 418 ''teapot''))) =
     OperationErrorCodeInternalFailure"
  using MapErrorCode_classes [of "CfError 503 ''service unavailable''" 503]
    MapErrorCode_classes [of "WrapError ''list failed'' (CfError 418 ''teapot'')" 418]
  by simp

text \<open>
  The claim as written asks for ServiceInternalError on every 5xx status. Status 501 is a
  5xx status, and the classifier answers InternalFailure.
\<close>

theorem MapErrorCode_501_counterexample:
  "MapErrorCode (Some (CfError 501 ''not implemented'')) = OperationErrorCodeInternalFailure \<and>
   MapErrorCode (Some (CfError 501 ''not implemented'')) \<noteq> OperationErrorCodeServiceInternalError"
  by (simp add: MapErrorCode_def)

subsection \<open>Validation\<close>

lemma supported_iff:
  "map_index supportedRecordTypes t \<longleftrightarrow>
     t \<in> {''A'', ''AAAA'', ''CNAME'', ''MX'', ''TXT'', ''NS'', ''CAA'', ''SRV''}"
  by (simp add: map_index_def supportedRecordTypes_def)

lemma proxyable_iff:
  "map_index proxyableRecordTypes t \<longleftrightarrow> t \<in> {''A'', ''AAAA'', ''CNAME''}"
  by (simp add: map_index_def proxyableRecordTypes_def)

lemma priorityRequired_iff:
  "map_index priorityRequiredTypes t \<longleftrightarrow> t \<in> {''MX'', ''SRV''}"
  by (simp add: map_index_def priorityRequiredTypes_def)

text \<open>
  Claim C1, as the code has it. Validation succeeds (returns nil) if and only if the
  record type is one of the eight supported types, the priority is present whenever the
  record type is MX or SRV, and proxied is not true for a record type outside
  A, AAAA, CNAME. A priority on a record of another type is accepted.
\<close>

theorem validateProperties_accepts_iff:
  "validateProperties props = None \<longleftrightarrow>
     DNSRecordProperties.RecordType props \<in>
       {''A'', ''AAAA'', ''CNAME'', ''MX'', ''TXT'', ''NS'', ''CAA'', ''SRV''} \<and>
     (DNSRecordProperties.RecordType props \<in> {''MX'', ''SRV''} \<longrightarrow>
        DNSRecordProperties.Priority props \<noteq> None) \<and>
     (DNSRecordProperties.Proxied props \<longrightarrow>
        DNSRecordProperties.RecordType props \<in> {''A'', ''AAAA'', ''CNAME''})"
  unfolding validateProperties_def supported_iff proxyable_iff priorityRequired_iff
  by auto

theorem validateProperties_accepts_iff_witness:
  "validateProperties mx_properties = None \<and>
   validateProperties srv_properties_without_priority \<noteq> None \<and>
   validateProperties proxied_txt_properties \<noteq> None"
  using validateProperties_accepts_iff [of mx_properties]
    validateProperties_accepts_iff [of srv_properties_without_priority]
    validateProperties_accepts_iff [of proxied_txt_properties]
  by (simp add: mx_properties_def srv_properties_without_priority_def
      proxied_txt_properties_def)

text \<open>
  The claim as written asks that the priority be present only for MX and SRV. An A record
  that carries a priority validates.
\<close>

theorem validateProperties_priority_counterexample:
  "validateProperties a_properties_with_priority = None \<and>
   DNSRecordProperties.Priority a_properties_with_priority \<noteq> None \<and>
   DNSRecordProperties.RecordType a_properties_with_priority \<notin> {''MX'', ''SRV''}"
  by (simp add: a_properties_with_priority_def validateProperties_def map_index_def
      supportedRecordTypes_def priorityRequiredTypes_def)

subsection \<open>Parsing\<close>

lemma decode_members_isl:
  assumes "\<And>g v q. isl (store g v q) \<longleftrightarrow> \<not> accepts g v"
  shows "isl (decode_members tags store ms p) \<longleftrightarrow> mistyped tags accepts ms"
proof (induction ms arbitrary: p)
  case Nil
  show ?case by (simp add: mistyped_def)
next
  case (Cons m ms)
  obtain key v where m: "m = (key, v)" by (cases m)
  show ?case
  proof (cases "find_field tags key")
    case None
    with Cons m show ?thesis by (simp add: mistyped_def)
  next
    case (Some f)
    show ?thesis
    proof (cases "store f v p")
      case (Inl e)
      then have "\<not> accepts f v" using assms [of f v p] by simp
      with Inl Some m show ?thesis by (simp add: mistyped_def)
    next
      case (Inr p')
      then have "accepts f v" using assms [of f v p] by simp
      with Inr Some m Cons [of p'] show ?thesis by (simp add: mistyped_def)
    qed
  qed
qed

lemma decode_members_supplied:
  assumes step: "\<And>g v q q'. store g v q = Inr q' \<Longrightarrow>
      get q' = (if g = f \<and> v \<noteq> JNull then conv v else get q)"
    and dec: "decode_members tags store ms p = Inr p'"
  shows "get p' = (case supplied tags f ms of Some v \<Rightarrow> conv v | None \<Rightarrow> get p)"
  using dec
proof (induction ms arbitrary: p)
  case Nil
  then show ?case by simp
next
  case (Cons m ms)
  obtain key v where m: "m = (key, v)" by (cases m)
  show ?case
  proof (cases "find_field tags key")
    case None
    with Cons m show ?thesis by (simp split: option.splits)
  next
    case (Some g)
    with Cons.prems m obtain q where q: "store g v p = Inr q"
      and rest: "decode_members tags store ms q = Inr p'"
      by (auto split: sum.splits)
    from Cons.IH [OF rest] step [OF q] Some m show ?thesis
      by (auto split: option.splits)
  qed
qed

lemma decode_members_last_member:
  assumes step: "\<And>g v q q'. store g v q = Inr q' \<Longrightarrow>
      get q' = (if g = f then conv v else get q)"
    and dec: "decode_members tags store ms p = Inr p'"
  shows "get p' = (case last_member tags f ms of Some v \<Rightarrow> conv v | None \<Rightarrow> get p)"
  using dec
proof (induction ms arbitrary: p)
  case Nil
  then show ?case by simp
next
  case (Cons m ms)
  obtain key v where m: "m = (key, v)" by (cases m)
  show ?case
  proof (cases "find_field tags key")
    case None
    with Cons m show ?thesis by (simp split: option.splits)
  next
    case (Some g)
    with Cons.prems m obtain q where q: "store g v p = Inr q"
      and rest: "decode_members tags store ms q = Inr p'"
      by (auto split: sum.splits)
    from Cons.IH [OF rest] step [OF q] Some m show ?thesis
      by (auto split: option.splits)
  qed
qed

lemma DNSRecordProperties_store_isl:
  "isl (DNSRecordProperties_store g v q) \<longleftrightarrow> \<not> DNSRecordProperties_accepts g v"
  unfolding DNSRecordProperties_store_def DNSRecordProperties_accepts_def
  by (cases v) (auto simp: isl_map_sum)

lemma store_RecordType:
  "DNSRecordProperties_store g v q = Inr q' \<Longrightarrow>
   DNSRecordProperties.RecordType q' =
     (if g = ''record_type'' \<and> v \<noteq> JNull then string_of v else DNSRecordProperties.RecordType q)"
  unfolding DNSRecordProperties_store_def
  by (cases v) (auto split: if_splits)

lemma store_Name:
  "DNSRecordProperties_store g v q = Inr q' \<Longrightarrow>
   DNSRecordProperties.Name q' =
     (if g = ''name'' \<and> v \<noteq> JNull then string_of v else DNSRecordProperties.Name q)"
  unfolding DNSRecordProperties_store_def
  by (cases v) (auto split: if_splits)

lemma store_Content:
  "DNSRecordProperties_store g v q = Inr q' \<Longrightarrow>
   DNSRecordProperties.Content q' =
     (if g = ''content'' \<and> v \<noteq> JNull then string_of v else DNSRecordProperties.Content q)"
  unfolding DNSRecordProperties_store_def
  by (cases v) (auto split: if_splits)

lemma store_TTL:
  "DNSRecordProperties_store g v q = Inr q' \<Longrightarrow>
   DNSRecordProperties.TTL q' =
     (if g = ''ttl'' \<and> v \<noteq> JNull then int_of v else DNSRecordProperties.TTL q)"
  unfolding DNSRecordProperties_store_def
  by (cases v) (auto split: if_splits)

lemma store_Proxied:
  "DNSRecordProperties_store g v q = Inr q' \<Longrightarrow>
   DNSRecordProperties.Proxied q' =
     (if g = ''proxied'' \<and> v \<noteq> JNull then bool_of v else DNSRecordProperties.Proxied q)"
  unfolding DNSRecordProperties_store_def
  by (cases v) (auto split: if_splits)

lemma store_Priority:
  "DNSRecordProperties_store g v q = Inr q' \<Longrightarrow>
   DNSRecordProperties.Priority q' =
     (if g = ''priority'' then int_ptr_of v else DNSRecordProperties.Priority q)"
  unfolding DNSRecordProperties_store_def
  by (cases v) (auto split: if_splits)

lemma store_Comment:
  "DNSRecordProperties_store g v q = Inr q' \<Longrightarrow>
   DNSRecordProperties.Comment q' =
     (if g = ''comment'' then string_ptr_of v else DNSRecordProperties.Comment q)"
  unfolding DNSRecordProperties_store_def
  by (cases v) (auto split: if_splits)

lemma supplied_accepted:
  "supplied tags f ms = Some v \<Longrightarrow> \<not> mistyped tags accepts ms \<Longrightarrow> accepts f v \<and> v \<noteq> JNull"
proof (induction ms)
  case Nil
  then show ?case by simp
next
  case (Cons m ms)
  obtain key w where m: "m = (key, w)" by (cases m)
  from Cons.prems(2) m have rest: "\<not> mistyped tags accepts ms"
    by (simp add: mistyped_def)
  show ?case
  proof (cases "supplied tags f ms")
    case None
    with Cons.prems m show ?thesis
      by (auto simp: mistyped_def split: if_splits)
  next
    case (Some u)
    with Cons.prems(1) m have "supplied tags f ms = Some v" by simp
    from Cons.IH [OF this rest] show ?thesis .
  qed
qed

lemma parseProperties_object:
  "parseProperties (Some (JObject ms)) =
     (case decode_members DNSRecordProperties_fields DNSRecordProperties_store ms parseProperties_defaults of
        Inl err \<Rightarrow> Inl (WrapError ''failed to parse properties'' err)
      | Inr props \<Rightarrow>
             if DNSRecordProperties.RecordType props = []
               then Inl (ErrorString ''record_type is required'')
             else if DNSRecordProperties.Name props = []
               then Inl (ErrorString ''name is required'')
             else if DNSRecordProperties.Content props = []
               then Inl (ErrorString ''content is required'')
             else Inr props)"
  by (simp add: parseProperties_def json_Unmarshal_def parseProperties_defaults_def)

lemma string_field_empty_iff:
  "(case supplied tags f ms of None \<Rightarrow> [] | Some v \<Rightarrow> string_of v) = [] \<longleftrightarrow>
   (case supplied tags f ms of Some (JString s) \<Rightarrow> s = [] | _ \<Rightarrow> True)"
  by (auto split: option.splits json.splits)

lemma parseProperties_isl_object:
  "isl (parseProperties (Some (JObject ms))) \<longleftrightarrow>
     mistyped DNSRecordProperties_fields DNSRecordProperties_accepts ms \<or>
     absent_or_empty ''record_type'' (Some (JObject ms)) \<or>
     absent_or_empty ''name'' (Some (JObject ms)) \<or>
     absent_or_empty ''content'' (Some (JObject ms))"
proof (cases "decode_members DNSRecordProperties_fields DNSRecordProperties_store ms parseProperties_defaults")
  case (Inl e)
  then have "isl (decode_members DNSRecordProperties_fields DNSRecordProperties_store ms parseProperties_defaults)"
    by simp
  then have "mistyped DNSRecordProperties_fields DNSRecordProperties_accepts ms"
    using decode_members_isl [of DNSRecordProperties_store DNSRecordProperties_accepts,
        OF DNSRecordProperties_store_isl] by blast
  with Inl show ?thesis by (simp add: parseProperties_object)
next
  case (Inr p)
  then have "\<not> isl (decode_members DNSRecordProperties_fields DNSRecordProperties_store ms parseProperties_defaults)"
    by simp
  then have nm: "\<not> mistyped DNSRecordProperties_fields DNSRecordProperties_accepts ms"
    using decode_members_isl [of DNSRecordProperties_store DNSRecordProperties_accepts,
        OF DNSRecordProperties_store_isl] by blast
  have rt: "DNSRecordProperties.RecordType p = [] \<longleftrightarrow> absent_or_empty ''record_type'' (Some (JObject ms))"
    using decode_members_supplied [of DNSRecordProperties_store DNSRecordProperties.RecordType
        "''record_type''" string_of, OF store_RecordType Inr]
    by (auto simp: absent_or_empty_def parseProperties_defaults_def split: option.splits json.splits)
  have nm': "DNSRecordProperties.Name p = [] \<longleftrightarrow> absent_or_empty ''name'' (Some (JObject ms))"
    using decode_members_supplied [of DNSRecordProperties_store DNSRecordProperties.Name
        "''name''" string_of, OF store_Name Inr]
    by (auto simp: absent_or_empty_def parseProperties_defaults_def split: option.splits json.splits)
  have ct: "DNSRecordProperties.Content p = [] \<longleftrightarrow> absent_or_empty ''content'' (Some (JObject ms))"
    using decode_members_supplied [of DNSRecordProperties_store DNSRecordProperties.Content
        "''content''" string_of, OF store_Content Inr]
    by (auto simp: absent_or_empty_def parseProperties_defaults_def split: option.splits json.splits)
  from Inr nm rt nm' ct show ?thesis
    by (simp add: parseProperties_object)
qed

lemma parseProperties_Inr_object:
  assumes "parseProperties (Some (JObject ms)) = Inr props"
  shows "decode_members DNSRecordProperties_fields DNSRecordProperties_store ms parseProperties_defaults = Inr props"
    and "DNSRecordProperties.RecordType props \<noteq> []"
    and "DNSRecordProperties.Name props \<noteq> []"
    and "DNSRecordProperties.Content props \<noteq> []"
  using assms unfolding parseProperties_object
  by (auto split: sum.splits if_splits)

lemma string_supplied:
  assumes "x = (case supplied tags f ms of None \<Rightarrow> d | Some v \<Rightarrow> string_of v)"
    and "x \<noteq> []" and "d = []"
  shows "supplied tags f ms = Some (JString x)"
proof (cases "supplied tags f ms")
  case None
  with assms show ?thesis by simp
next
  case (Some v)
  with assms show ?thesis by (cases v) auto
qed

lemma parseProperties_defaults_RecordType: "DNSRecordProperties.RecordType parseProperties_defaults = []"
  and parseProperties_defaults_Name: "DNSRecordProperties.Name parseProperties_defaults = []"
  and parseProperties_defaults_Content: "DNSRecordProperties.Content parseProperties_defaults = []"
  by (simp_all add: parseProperties_defaults_def)

lemma parseProperties_success_object:
  assumes ok: "parseProperties (Some (JObject ms)) = Inr props"
  shows "supplied DNSRecordProperties_fields ''record_type'' ms =
           Some (JString (DNSRecordProperties.RecordType props)) \<and>
         supplied DNSRecordProperties_fields ''name'' ms =
           Some (JString (DNSRecordProperties.Name props)) \<and>
         supplied DNSRecordProperties_fields ''content'' ms =
           Some (JString (DNSRecordProperties.Content props)) \<and>
         (case supplied DNSRecordProperties_fields ''ttl'' ms of
            None \<Rightarrow> DNSRecordProperties.TTL props = 1
          | Some v \<Rightarrow> v = JInt (DNSRecordProperties.TTL props)) \<and>
         (case supplied DNSRecordProperties_fields ''proxied'' ms of
            None \<Rightarrow> DNSRecordProperties.Proxied props = False
          | Some v \<Rightarrow> v = JBool (DNSRecordProperties.Proxied props)) \<and>
         (case last_member DNSRecordProperties_fields ''priority'' ms of
            Some (JInt n) \<Rightarrow> DNSRecordProperties.Priority props = Some n
          | _ \<Rightarrow> DNSRecordProperties.Priority props = None) \<and>
         (case last_member DNSRecordProperties_fields ''comment'' ms of
            Some (JString s) \<Rightarrow> DNSRecordProperties.Comment props = Some s
          | _ \<Rightarrow> DNSRecordProperties.Comment props = None)"
proof -
  note dec = parseProperties_Inr_object(1) [OF ok]
  from dec have "\<not> isl (decode_members DNSRecordProperties_fields DNSRecordProperties_store ms parseProperties_defaults)"
    by simp
  then have nm: "\<not> mistyped DNSRecordProperties_fields DNSRecordProperties_accepts ms"
    using decode_members_isl [of DNSRecordProperties_store DNSRecordProperties_accepts,
        OF DNSRecordProperties_store_isl] by blast
  have rt: "supplied DNSRecordProperties_fields ''record_type'' ms =
           Some (JString (DNSRecordProperties.RecordType props))"
    by (rule string_supplied [OF decode_members_supplied [of DNSRecordProperties_store
          DNSRecordProperties.RecordType "''record_type''" string_of, OF store_RecordType dec]
          parseProperties_Inr_object(2) [OF ok] parseProperties_defaults_RecordType])
  have na: "supplied DNSRecordProperties_fields ''name'' ms =
           Some (JString (DNSRecordProperties.Name props))"
    by (rule string_supplied [OF decode_members_supplied [of DNSRecordProperties_store
          DNSRecordProperties.Name "''name''" string_of, OF store_Name dec]
          parseProperties_Inr_object(3) [OF ok] parseProperties_defaults_Name])
  have ct: "supplied DNSRecordProperties_fields ''content'' ms =
           Some (JString (DNSRecordProperties.Content props))"
    by (rule string_supplied [OF decode_members_supplied [of DNSRecordProperties_store
          DNSRecordProperties.Content "''content''" string_of, OF store_Content dec]
          parseProperties_Inr_object(4) [OF ok] parseProperties_defaults_Content])
  have ttl: "(case supplied DNSRecordProperties_fields ''ttl'' ms of
            None \<Rightarrow> DNSRecordProperties.TTL props = 1
          | Some v \<Rightarrow> v = JInt (DNSRecordProperties.TTL props))"
  proof (cases "supplied DNSRecordProperties_fields ''ttl'' ms")
    case None
    with decode_members_supplied [of DNSRecordProperties_store DNSRecordProperties.TTL
        "''ttl''" int_of, OF store_TTL dec]
    show ?thesis by (simp add: parseProperties_defaults_def)
  next
    case (Some v)
    from supplied_accepted [OF Some nm] have "is_int64_or_null v" "v \<noteq> JNull"
      by (simp_all add: DNSRecordProperties_accepts_def)
    then obtain n where "v = JInt n" by (cases v) auto
    with Some decode_members_supplied [of DNSRecordProperties_store DNSRecordProperties.TTL
        "''ttl''" int_of, OF store_TTL dec]
    show ?thesis by simp
  qed
  have px: "(case supplied DNSRecordProperties_fields ''proxied'' ms of
            None \<Rightarrow> DNSRecordProperties.Proxied props = False
          | Some v \<Rightarrow> v = JBool (DNSRecordProperties.Proxied props))"
  proof (cases "supplied DNSRecordProperties_fields ''proxied'' ms")
    case None
    with decode_members_supplied [of DNSRecordProperties_store DNSRecordProperties.Proxied
        "''proxied''" bool_of, OF store_Proxied dec]
    show ?thesis by (simp add: parseProperties_defaults_def)
  next
    case (Some v)
    from supplied_accepted [OF Some nm] have "is_bool_or_null v" "v \<noteq> JNull"
      by (simp_all add: DNSRecordProperties_accepts_def)
    then obtain b where "v = JBool b" by (cases v) auto
    with Some decode_members_supplied [of DNSRecordProperties_store DNSRecordProperties.Proxied
        "''proxied''" bool_of, OF store_Proxied dec]
    show ?thesis by simp
  qed
  have pr: "(case last_member DNSRecordProperties_fields ''priority'' ms of
            Some (JInt n) \<Rightarrow> DNSRecordProperties.Priority props = Some n
          | _ \<Rightarrow> DNSRecordProperties.Priority props = None)"
    using decode_members_last_member [of DNSRecordProperties_store DNSRecordProperties.Priority
        "''priority''" int_ptr_of, OF store_Priority dec]
    by (auto simp: parseProperties_defaults_def split: option.splits json.splits)
  have cm: "(case last_member DNSRecordProperties_fields ''comment'' ms of
            Some (JString s) \<Rightarrow> DNSRecordProperties.Comment props = Some s
          | _ \<Rightarrow> DNSRecordProperties.Comment props = None)"
    using decode_members_last_member [of DNSRecordProperties_store DNSRecordProperties.Comment
        "''comment''" string_ptr_of, OF store_Comment dec]
    by (auto simp: parseProperties_defaults_def split: option.splits json.splits)
  from rt na ct ttl px pr cm show ?thesis by blast
qed

lemma parseProperties_Inr_is_object:
  "parseProperties raw = Inr props \<Longrightarrow> \<exists>ms. raw = Some (JObject ms)"
  unfolding parseProperties_def json_Unmarshal_def
  by (auto simp: Let_def split: option.splits json.splits sum.splits if_splits)

lemma parseProperties_isl:
  "isl (parseProperties raw) \<longleftrightarrow>
      raw = None \<or> wrong_shape raw \<or>
      absent_or_empty ''record_type'' raw \<or> absent_or_empty ''name'' raw \<or>
      absent_or_empty ''content'' raw"
proof (cases raw)
  case None
  then show ?thesis by (simp add: parseProperties_def json_Unmarshal_def)
next
  case (Some j)
  show ?thesis
  proof (cases "\<exists>ms. j = JObject ms")
    case True
    then obtain ms where "j = JObject ms" by blast
    with Some parseProperties_isl_object [of ms] show ?thesis
      by (simp add: wrong_shape_def)
  next
    case False
    with Some show ?thesis
      by (cases j) (simp_all add: parseProperties_def json_Unmarshal_def wrong_shape_def
          absent_or_empty_def)
  qed
qed

text \<open>
  Claim C8, as the code has it. Parsing returns an error exactly when the payload is
  malformed JSON, or is JSON of the wrong shape (not an object, or a member of a JSON type
  its field does not take, such as a string for ttl), or when record_type, name or content
  is absent or empty. On success the payload is an object, the three required fields hold
  the strings it supplies, an omitted ttl is 1 and an omitted proxied is false, a supplied
  ttl or proxied is kept, and priority and comment are those of the last member that names
  them (absent when there is none or when it is null).
\<close>

theorem parseProperties_outcome:
  "(isl (parseProperties raw) \<longleftrightarrow>
      raw = None \<or> wrong_shape raw \<or>
      absent_or_empty ''record_type'' raw \<or> absent_or_empty ''name'' raw \<or>
      absent_or_empty ''content'' raw) \<and>
   (parseProperties raw = Inr props \<longrightarrow>
      (\<exists>members. raw = Some (JObject members) \<and>
         supplied DNSRecordProperties_fields ''record_type'' members =
           Some (JString (DNSRecordProperties.RecordType props)) \<and>
         supplied DNSRecordProperties_fields ''name'' members =
           Some (JString (DNSRecordProperties.Name props)) \<and>
         supplied DNSRecordProperties_fields ''content'' members =
           Some (JString (DNSRecordProperties.Content props)) \<and>
         (case supplied DNSRecordProperties_fields ''ttl'' members of
            None \<Rightarrow> DNSRecordProperties.TTL props = 1
          | Some v \<Rightarrow> v = JInt (DNSRecordProperties.TTL props)) \<and>
         (case supplied DNSRecordProperties_fields ''proxied'' members of
            None \<Rightarrow> DNSRecordProperties.Proxied props = False
          | Some v \<Rightarrow> v = JBool (DNSRecordProperties.Proxied props)) \<and>
         (case last_member DNSRecordProperties_fields ''priority'' members of
            Some (JInt n) \<Rightarrow> DNSRecordProperties.Priority props = Some n
          | _ \<Rightarrow> DNSRecordProperties.Priority props = None) \<and>
         (case last_member DNSRecordProperties_fields ''comment'' members of
            Some (JString s) \<Rightarrow> DNSRecordProperties.Comment props = Some s
          | _ \<Rightarrow> DNSRecordProperties.Comment props = None)))"
proof (intro conjI impI)
  show "isl (parseProperties raw) \<longleftrightarrow>
      raw = None \<or> wrong_shape raw \<or>
      absent_or_empty ''record_type'' raw \<or> absent_or_empty ''name'' raw \<or>
      absent_or_empty ''content'' raw"
    by (rule parseProperties_isl)
next
  assume ok: "parseProperties raw = Inr props"
  then obtain ms where raw: "raw = Some (JObject ms)"
    using parseProperties_Inr_is_object by blast
  from parseProperties_success_object [OF ok [unfolded raw]] raw
  show "\<exists>members. raw = Some (JObject members) \<and>
         supplied DNSRecordProperties_fields ''record_type'' members =
           Some (JString (DNSRecordProperties.RecordType props)) \<and>
         supplied DNSRecordProperties_fields ''name'' members =
           Some (JString (DNSRecordProperties.Name props)) \<and>
         supplied DNSRecordProperties_fields ''content'' members =
           Some (JString (DNSRecordProperties.Content props)) \<and>
         (case supplied DNSRecordProperties_fields ''ttl'' members of
            None \<Rightarrow> DNSRecordProperties.TTL props = 1
          | Some v \<Rightarrow> v = JInt (DNSRecordProperties.TTL props)) \<and>
         (case supplied DNSRecordProperties_fields ''proxied'' members of
            None \<Rightarrow> DNSRecordProperties.Proxied props = False
          | Some v \<Rightarrow> v = JBool (DNSRecordProperties.Proxied props)) \<and>
         (case last_member DNSRecordProperties_fields ''priority'' members of
            Some (JInt n) \<Rightarrow> DNSRecordProperties.Priority props = Some n
          | _ \<Rightarrow> DNSRecordProperties.Priority props = None) \<and>
         (case last_member DNSRecordProperties_fields ''comment'' members of
            Some (JString s) \<Rightarrow> DNSRecordProperties.Comment props = Some s
          | _ \<Rightarrow> DNSRecordProperties.Comment props = None)"
    by blast
qed

theorem parseProperties_outcome_witness:
  "parseProperties payload_defaults =
     Inr \<lparr>DNSRecordProperties.RecordType = ''A'', DNSRecordProperties.Name = ''www'',
          DNSRecordProperties.Content = ''192.0.2.1'', DNSRecordProperties.TTL = 1,
          DNSRecordProperties.Proxied = False, DNSRecordProperties.Priority = None,
          DNSRecordProperties.Comment = None\<rparr> \<and>
   \<not> wrong_shape payload_defaults \<and>
   \<not> absent_or_empty ''record_type'' payload_defaults \<and>
   \<not> absent_or_empty ''name'' payload_defaults \<and>
   \<not> absent_or_empty ''content'' payload_defaults \<and>
   absent_or_empty ''name'' payload_no_name \<and>
   isl (parseProperties payload_no_name)"
proof -
  have ok: "parseProperties payload_defaults =
     Inr \<lparr>DNSRecordProperties.RecordType = ''A'', DNSRecordProperties.Name = ''www'',
          DNSRecordProperties.Content = ''192.0.2.1'', DNSRecordProperties.TTL = 1,
          DNSRecordProperties.Proxied = False, DNSRecordProperties.Priority = None,
          DNSRecordProperties.Comment = None\<rparr>"
    by code_simp
  have absent: "absent_or_empty ''name'' payload_no_name"
    by code_simp
  from parseProperties_outcome [of payload_defaults] ok
  have "\<not> (payload_defaults = None \<or> wrong_shape payload_defaults \<or>
      absent_or_empty ''record_type'' payload_defaults \<or>
      absent_or_empty ''name'' payload_defaults \<or>
      absent_or_empty ''content'' payload_defaults)"
    by simp
  moreover from parseProperties_outcome [of payload_no_name] absent
  have "isl (parseProperties payload_no_name)"
    by blast
  ultimately show ?thesis using ok absent by blast
qed

text \<open>
  The claim as written lets parsing fail only on malformed JSON or on an absent or empty
  required field. A payload that is well-formed JSON, with all three required fields
  present and non-empty, and a ttl given as the string "300", is rejected.
\<close>

theorem parseProperties_ttl_string_counterexample:
  "isl (parseProperties payload_ttl_string) \<and>
   payload_ttl_string \<noteq> None \<and>
   \<not> absent_or_empty ''record_type'' payload_ttl_string \<and>
   \<not> absent_or_empty ''name'' payload_ttl_string \<and>
   \<not> absent_or_empty ''content'' payload_ttl_string"
  by code_simp

subsection \<open>The record mapper of the client\<close>

lemma record_body_Inr_iff:
  "(\<exists>body. record_body r = Inr body) \<longleftrightarrow>
     DNSRecord.RecordType r \<in> {''A'', ''AAAA'', ''CNAME'', ''TXT'', ''MX'', ''NS''}"
  by (auto simp: record_body_def Let_def)

lemma record_body_Type:
  "record_body r = Inr body \<Longrightarrow> RecordBody_Type body = DNSRecord.RecordType r"
  by (auto simp: record_body_def Let_def split: if_splits)

lemma record_body_unsupported:
  "DNSRecord.RecordType r \<notin> {''A'', ''AAAA'', ''CNAME'', ''TXT'', ''MX'', ''NS''} \<Longrightarrow>
   record_body r = Inl (errors_New (''unsupported record type: '' @ DNSRecord.RecordType r))"
  by (simp add: record_body_def)

text \<open>
  Claim C3, as the code has it. For a record whose type is one of the six types A, AAAA,
  CNAME, TXT, MX and NS, the client builds the request body of that type, and
  \<open>CreateRecord\<close> and \<open>UpdateRecord\<close> issue one provider call with it. For every
  other record type, CAA and SRV included, both return the error "unsupported record type"
  and issue no provider call.
\<close>

theorem record_types_of_the_client:
  "(DNSRecord.RecordType r \<in> {''A'', ''AAAA'', ''CNAME'', ''TXT'', ''MX'', ''NS''} \<longrightarrow>
      (\<exists>body. RecordBody_Type body = DNSRecord.RecordType r \<and>
         snd (CreateRecord c r) =
           [Call_Records_New \<lparr>RecordNewParams.ZoneID = DNSRecord.ZoneID r, Body = body\<rparr>] \<and>
         snd (UpdateRecord c r) =
           [Call_Records_Update (DNSRecord.ID r)
              \<lparr>RecordUpdateParams.ZoneID = DNSRecord.ZoneID r, Body = body\<rparr>])) \<and>
   (DNSRecord.RecordType r \<notin> {''A'', ''AAAA'', ''CNAME'', ''TXT'', ''MX'', ''NS''} \<longrightarrow>
      CreateRecord c r =
        (Inl (errors_New (''unsupported record type: '' @ DNSRecord.RecordType r)), []) \<and>
      UpdateRecord c r =
        (Inl (errors_New (''unsupported record type: '' @ DNSRecord.RecordType r)), []))"
proof (intro conjI impI)
  assume "DNSRecord.RecordType r \<in> {''A'', ''AAAA'', ''CNAME'', ''TXT'', ''MX'', ''NS''}"
  then obtain body where b: "record_body r = Inr body"
    using record_body_Inr_iff by blast
  have "snd (CreateRecord c r) =
           [Call_Records_New \<lparr>RecordNewParams.ZoneID = DNSRecord.ZoneID r, Body = body\<rparr>]"
    using b by (simp add: CreateRecord_def Let_def split: sum.splits)
  moreover have "snd (UpdateRecord c r) =
           [Call_Records_Update (DNSRecord.ID r)
              \<lparr>RecordUpdateParams.ZoneID = DNSRecord.ZoneID r, Body = body\<rparr>]"
    using b by (simp add: UpdateRecord_def Let_def split: sum.splits)
  ultimately show "\<exists>body. RecordBody_Type body = DNSRecord.RecordType r \<and>
         snd (CreateRecord c r) =
           [Call_Records_New \<lparr>RecordNewParams.ZoneID = DNSRecord.ZoneID r, Body = body\<rparr>] \<and>
         snd (UpdateRecord c r) =
           [Call_Records_Update (DNSRecord.ID r)
              \<lparr>RecordUpdateParams.ZoneID = DNSRecord.ZoneID r, Body = body\<rparr>]"
    using record_body_Type [OF b] by blast
next
  assume u: "DNSRecord.RecordType r \<notin> {''A'', ''AAAA'', ''CNAME'', ''TXT'', ''MX'', ''NS''}"
  show "CreateRecord c r =
        (Inl (errors_New (''unsupported record type: '' @ DNSRecord.RecordType r)), [])"
    by (simp add: CreateRecord_def record_body_unsupported [OF u])
next
  assume u: "DNSRecord.RecordType r \<notin> {''A'', ''AAAA'', ''CNAME'', ''TXT'', ''MX'', ''NS''}"
  show "UpdateRecord c r =
        (Inl (errors_New (''unsupported record type: '' @ DNSRecord.RecordType r)), [])"
    by (simp add: UpdateRecord_def record_body_unsupported [OF u])
qed

theorem record_types_of_the_client_witness:
  "snd (CreateRecord example_client mx_record) =
     [Call_Records_New \<lparr>RecordNewParams.ZoneID = ''zone-1'',
        Body = MXRecordParam ''@'' ''mail.example.com'' 1 10 []\<rparr>] \<and>
   CreateRecord example_client \<lparr>DNSRecord.ID = [], ZoneID = ''zone-1'', Name = ''x'',
       RecordType = ''PTR'', Content = ''y'', TTL = 1, Proxied = False, Comment = [],
       Priority = None\<rparr> = (Inl (ErrorString ''unsupported record type: PTR''), [])"
proof -
  have t: "DNSRecord.RecordType mx_record \<in> {''A'', ''AAAA'', ''CNAME'', ''TXT'', ''MX'', ''NS''}"
    by (simp add: mx_record_def)
  have b: "record_body mx_record = Inr (MXRecordParam ''@'' ''mail.example.com'' 1 10 [])"
    by (simp add: record_body_def mx_record_def float64_def)
  from record_types_of_the_client [of mx_record example_client] t
  obtain body where "snd (CreateRecord example_client mx_record) =
      [Call_Records_New \<lparr>RecordNewParams.ZoneID = DNSRecord.ZoneID mx_record, Body = body\<rparr>]"
    by blast
  moreover have "snd (CreateRecord example_client mx_record) =
      [Call_Records_New \<lparr>RecordNewParams.ZoneID = DNSRecord.ZoneID mx_record,
         Body = MXRecordParam ''@'' ''mail.example.com'' 1 10 []\<rparr>]"
    using b by (simp add: CreateRecord_def Let_def split: sum.splits)
  ultimately have first: "snd (CreateRecord example_client mx_record) =
     [Call_Records_New \<lparr>RecordNewParams.ZoneID = ''zone-1'',
        Body = MXRecordParam ''@'' ''mail.example.com'' 1 10 []\<rparr>]"
    by (simp add: mx_record_def)
  from record_types_of_the_client [of "\<lparr>DNSRecord.ID = [], ZoneID = ''zone-1'', Name = ''x'',
       RecordType = ''PTR'', Content = ''y'', TTL = 1, Proxied = False, Comment = [],
       Priority = None\<rparr>" example_client]
  have "CreateRecord example_client \<lparr>DNSRecord.ID = [], ZoneID = ''zone-1'', Name = ''x'',
       RecordType = ''PTR'', Content = ''y'', TTL = 1, Proxied = False, Comment = [],
       Priority = None\<rparr> = (Inl (ErrorString ''unsupported record type: PTR''), [])"
    by (simp add: errors_New_def)
  with first show ?thesis by blast
qed

text \<open>
  The claim as written counts CAA and SRV among the types a body is built for. A CAA
  record is refused by \<open>CreateRecord\<close> and by \<open>UpdateRecord\<close>.
\<close>

theorem CreateRecord_CAA_counterexample:
  "CreateRecord example_client caa_record = (Inl (ErrorString ''unsupported record type: CAA''), []) \<and>
   UpdateRecord example_client caa_record = (Inl (ErrorString ''unsupported record type: CAA''), [])"
  by (simp add: CreateRecord_def UpdateRecord_def record_body_def caa_record_def errors_New_def)

subsection \<open>Listing\<close>

lemma recordFromListItem_ID: "DNSRecord.ID (recordFromListItem r zoneID) = RecordResponse.ID r"
  by (simp add: recordFromListItem_def Let_def)

lemma wrap_int64_id: "- (2 ^ 63) \<le> n \<Longrightarrow> n < 2 ^ 63 \<Longrightarrow> wrap_int64 n = n"
  by (simp add: wrap_int64_def)

lemma ListRecords_calls:
  "\<exists>params. snd (ListRecords pf c zoneID pageToken pageSize) = [Call_Records_List params] \<and>
     RecordListParams.ZoneID params = zoneID \<and>
     RecordListParams.PerPage params = float64 (if pageSize > 0 then pageSize else 100) \<and>
     fst (ListRecords pf c zoneID pageToken pageSize) =
       (case Records_List (api c) params of
          Inl err \<Rightarrow> Inl err
        | Inr resp \<Rightarrow>
            Inr (map (\<lambda>r. recordFromListItem r zoneID) (Result resp),
                 if int (length (Result resp)) = (if pageSize > 0 then pageSize else 100)
                 then Some (FormatInt (wrap_int64 (ResultInfo_Page resp + 1)))
                 else None))"
  by (simp add: ListRecords_def Let_def split: sum.splits)

lemma List_uncalled:
  "isl (parseTargetConfig (ListRequest.TargetConfig req)) \<or>
   (\<exists>cfg. parseTargetConfig (ListRequest.TargetConfig req) = Inr cfg \<and> targetConfig.ZoneID cfg = []) \<or>
   isl (NewClient w) \<Longrightarrow>
   List pf w req = ((\<lparr>NativeIDs = [], NextPageToken = None\<rparr>, None), [])"
  by (auto simp: List_def Let_def split: sum.splits)

lemma List_called:
  assumes "parseTargetConfig (ListRequest.TargetConfig req) = Inr cfg"
    and "targetConfig.ZoneID cfg \<noteq> []" and "CLOUDFLARE_API_TOKEN w \<noteq> []"
  shows "snd (List pf w req) =
        snd (ListRecords pf \<lparr>api = cloudflare w\<rparr> (targetConfig.ZoneID cfg) (PageToken req) (PageSize req))"
    and "fst (List pf w req) =
        (case fst (ListRecords pf \<lparr>api = cloudflare w\<rparr> (targetConfig.ZoneID cfg) (PageToken req) (PageSize req)) of
           Inl err \<Rightarrow> (\<lparr>NativeIDs = [], NextPageToken = None\<rparr>, None)
         | Inr (records, nextToken) \<Rightarrow>
             (\<lparr>NativeIDs = map DNSRecord.ID records, NextPageToken = nextToken\<rparr>, None))"
  using assms by (auto simp: List_def NewClient_def Let_def split: sum.splits prod.splits)

lemma List_reached:
  assumes "snd (List pf w req) \<noteq> []"
  obtains cfg where "parseTargetConfig (ListRequest.TargetConfig req) = Inr cfg"
    and "targetConfig.ZoneID cfg \<noteq> []" and "CLOUDFLARE_API_TOKEN w \<noteq> []"
proof (cases "parseTargetConfig (ListRequest.TargetConfig req)")
  case (Inl e)
  then have "List pf w req = ((\<lparr>NativeIDs = [], NextPageToken = None\<rparr>, None), [])"
    by (intro List_uncalled) simp
  with assms show ?thesis by simp
next
  case (Inr cfg)
  show ?thesis
  proof (cases "targetConfig.ZoneID cfg = [] \<or> CLOUDFLARE_API_TOKEN w = []")
    case True
    with Inr have "List pf w req = ((\<lparr>NativeIDs = [], NextPageToken = None\<rparr>, None), [])"
      by (intro List_uncalled) (auto simp: NewClient_def)
    with assms show ?thesis by simp
  next
    case False
    with Inr that show ?thesis by blast
  qed
qed

lemma List_request_made:
  assumes "parseTargetConfig (ListRequest.TargetConfig req) = Inr cfg"
    and "targetConfig.ZoneID cfg \<noteq> []" and "CLOUDFLARE_API_TOKEN w \<noteq> []"
  shows "List pf w req =
     (case Records_List (cloudflare w)
             \<lparr>RecordListParams.ZoneID = targetConfig.ZoneID cfg,
              PerPage = float64 (effective_page_size req),
              Page = requested_page pf (PageToken req)\<rparr> of
        Inl err \<Rightarrow> (\<lparr>NativeIDs = [], NextPageToken = None\<rparr>, None)
      | Inr resp \<Rightarrow>
          (\<lparr>NativeIDs = map RecordResponse.ID (Result resp),
            NextPageToken =
              (if int (length (Result resp)) = effective_page_size req
               then Some (FormatInt (wrap_int64 (ResultInfo_Page resp + 1)))
               else None)\<rparr>, None),
      [Call_Records_List
         \<lparr>RecordListParams.ZoneID = targetConfig.ZoneID cfg,
          PerPage = float64 (effective_page_size req),
          Page = requested_page pf (PageToken req)\<rparr>])"
proof -
  have page: "(case PageToken req of
                 None \<Rightarrow> None
               | Some t \<Rightarrow>
                   if t \<noteq> [] then
                     (case pf t of
                        Inr page \<Rightarrow> if page \<ge> 1 then Some page else None
                      | Inl err \<Rightarrow> None)
                   else None) = requested_page pf (PageToken req)"
    by (simp add: requested_page_def split: option.splits sum.splits)
  show ?thesis
    using assms
    by (simp add: List_def NewClient_def ListRecords_def Let_def page
        effective_page_size_def recordFromListItem_ID comp_def split: sum.splits)
qed

lemma List_direct_answer:
  assumes "parseTargetConfig_direct (ListRequest.TargetConfig req) = Inr config"
    and "NewWithAPIToken (TargetConfig.APIToken config) = Inr client"
    and "ListDNSRecords client (TargetConfig.ZoneID config)
           \<lparr>ResultInfo = \<lparr>ResultInfo.Page = requested_page_direct Sscanf (PageToken req),
                           ResultInfo.PerPage = effective_page_size req,
                           TotalPages = 0\<rparr>\<rparr> = Inr (records, resultInfo)"
  shows "List_direct Sscanf NewWithAPIToken req =
     (\<lparr>NativeIDs = map cloudflare_DNSRecord.ID records,
       NextPageToken =
         (case resultInfo of
            None \<Rightarrow> None
          | Some info \<Rightarrow>
              if ResultInfo.Page info < TotalPages info
              then Some (FormatInt (wrap_int64 (ResultInfo.Page info + 1)))
              else None)\<rparr>, None)"
proof -
  have page: "(case PageToken req of
                 None \<Rightarrow> 1
               | Some t \<Rightarrow>
                   if t \<noteq> [] then (case Sscanf t of Some n \<Rightarrow> n | None \<Rightarrow> 1)
                   else 1) = requested_page_direct Sscanf (PageToken req)"
    by (simp add: requested_page_direct_def split: option.splits)
  show ?thesis
    using assms
    by (simp add: List_direct_def createCloudflareClient_def Let_def page
        effective_page_size_def)
qed

lemma five_records_pages:
  "List decimal_ParseFloat (example_world five_records) (list_request None 2) =
      ((\<lparr>NativeIDs = [''r1'', ''r2''], NextPageToken = Some ''2''\<rparr>, None),
       [Call_Records_List \<lparr>RecordListParams.ZoneID = ''zone-1'', PerPage = 2, Page = None\<rparr>])"
  "List decimal_ParseFloat (example_world five_records) (list_request (Some ''2'') 2) =
      ((\<lparr>NativeIDs = [''r3'', ''r4''], NextPageToken = Some ''3''\<rparr>, None),
       [Call_Records_List \<lparr>RecordListParams.ZoneID = ''zone-1'', PerPage = 2, Page = Some 2\<rparr>])"
  "List decimal_ParseFloat (example_world five_records) (list_request (Some ''3'') 2) =
      ((\<lparr>NativeIDs = [''r5''], NextPageToken = None\<rparr>, None),
       [Call_Records_List \<lparr>RecordListParams.ZoneID = ''zone-1'', PerPage = 2, Page = Some 3\<rparr>])"
  "List decimal_ParseFloat (example_world five_records) (list_request None 0) =
      ((\<lparr>NativeIDs = [''r1'', ''r2'', ''r3'', ''r4'', ''r5''], NextPageToken = None\<rparr>, None),
       [Call_Records_List \<lparr>RecordListParams.ZoneID = ''zone-1'', PerPage = 100, Page = None\<rparr>])"
  by code_simp+

text \<open>
  Claim C6, as the code has it. In the client-based plugin, a List request with a target
  configuration that names a zone, and with the API token set, makes exactly one provider
  call, for the effective page size: the requested page size, or 100 when none is
  specified. When the provider answers with a page, the result lists the IDs of the page;
  it carries a next-page token if and only if the number of returned records equals the
  effective page size; and the token is the decimal form of the page index the provider
  reports plus one (computed in 64 bits, so it is that number for every index below the
  largest). Five records listed with page size 2 give three pages, each requested with the
  token of the one before: the first two carry the tokens "2" and "3", the third carries
  none; listed without a page size they come in one page of up to 100. The older List
  asks for the same effective page size, but carries a token if and only if the provider's
  result info reports a page index below its number of pages, whatever the number of
  records returned; the token is again that page index plus one.
\<close>

theorem List_pagination:
  "(parseTargetConfig (ListRequest.TargetConfig req) = Inr cfg \<and>
    targetConfig.ZoneID cfg \<noteq> [] \<and> CLOUDFLARE_API_TOKEN w \<noteq> [] \<longrightarrow>
      snd (List pf w req) =
        [Call_Records_List
           \<lparr>RecordListParams.ZoneID = targetConfig.ZoneID cfg,
            PerPage = float64 (effective_page_size req),
            Page = requested_page pf (PageToken req)\<rparr>] \<and>
      (Records_List (cloudflare w)
           \<lparr>RecordListParams.ZoneID = targetConfig.ZoneID cfg,
            PerPage = float64 (effective_page_size req),
            Page = requested_page pf (PageToken req)\<rparr> = Inr resp \<longrightarrow>
         NativeIDs (fst (fst (List pf w req))) = map RecordResponse.ID (Result resp) \<and>
         (NextPageToken (fst (fst (List pf w req))) \<noteq> None \<longleftrightarrow>
            int (length (NativeIDs (fst (fst (List pf w req))))) = effective_page_size req) \<and>
         (NextPageToken (fst (fst (List pf w req))) \<noteq> None \<longrightarrow>
            NextPageToken (fst (fst (List pf w req))) =
              Some (FormatInt (wrap_int64 (ResultInfo_Page resp + 1))) \<and>
            (- (2 ^ 63) \<le> ResultInfo_Page resp \<and> ResultInfo_Page resp < 2 ^ 63 - 1 \<longrightarrow>
               NextPageToken (fst (fst (List pf w req))) =
                 Some (FormatInt (ResultInfo_Page resp + 1)))))) \<and>
   List decimal_ParseFloat (example_world five_records) (list_request None 2) =
      ((\<lparr>NativeIDs = [''r1'', ''r2''], NextPageToken = Some ''2''\<rparr>, None),
       [Call_Records_List \<lparr>RecordListParams.ZoneID = ''zone-1'', PerPage = 2, Page = None\<rparr>]) \<and>
   List decimal_ParseFloat (example_world five_records) (list_request (Some ''2'') 2) =
      ((\<lparr>NativeIDs = [''r3'', ''r4''], NextPageToken = Some ''3''\<rparr>, None),
       [Call_Records_List \<lparr>RecordListParams.ZoneID = ''zone-1'', PerPage = 2, Page = Some 2\<rparr>]) \<and>
   List decimal_ParseFloat (example_world five_records) (list_request (Some ''3'') 2) =
      ((\<lparr>NativeIDs = [''r5''], NextPageToken = None\<rparr>, None),
       [Call_Records_List \<lparr>RecordListParams.ZoneID = ''zone-1'', PerPage = 2, Page = Some 3\<rparr>]) \<and>
   List decimal_ParseFloat (example_world five_records) (list_request None 0) =
      ((\<lparr>NativeIDs = [''r1'', ''r2'', ''r3'', ''r4'', ''r5''], NextPageToken = None\<rparr>, None),
       [Call_Records_List \<lparr>RecordListParams.ZoneID = ''zone-1'', PerPage = 100, Page = None\<rparr>]) \<and>
   (parseTargetConfig_direct (ListRequest.TargetConfig req) = Inr config \<and>
    NewWithAPIToken (TargetConfig.APIToken config) = Inr client \<and>
    ListDNSRecords client (TargetConfig.ZoneID config)
      \<lparr>ResultInfo = \<lparr>ResultInfo.Page = requested_page_direct Sscanf (PageToken req),
                      ResultInfo.PerPage = effective_page_size req,
                      TotalPages = 0\<rparr>\<rparr> = Inr (records, resultInfo) \<longrightarrow>
      snd (List_direct Sscanf NewWithAPIToken req) = None \<and>
      NativeIDs (fst (List_direct Sscanf NewWithAPIToken req)) =
        map cloudflare_DNSRecord.ID records \<and>
      (NextPageToken (fst (List_direct Sscanf NewWithAPIToken req)) \<noteq> None \<longleftrightarrow>
         (\<exists>info. resultInfo = Some info \<and> ResultInfo.Page info < TotalPages info)) \<and>
      (\<forall>info. resultInfo = Some info \<and> ResultInfo.Page info < TotalPages info \<longrightarrow>
         NextPageToken (fst (List_direct Sscanf NewWithAPIToken req)) =
           Some (FormatInt (wrap_int64 (ResultInfo.Page info + 1)))))"
proof (intro conjI impI allI)
  assume h: "parseTargetConfig (ListRequest.TargetConfig req) = Inr cfg \<and>
    targetConfig.ZoneID cfg \<noteq> [] \<and> CLOUDFLARE_API_TOKEN w \<noteq> []"
  then have made: "List pf w req =
     (case Records_List (cloudflare w)
             \<lparr>RecordListParams.ZoneID = targetConfig.ZoneID cfg,
              PerPage = float64 (effective_page_size req),
              Page = requested_page pf (PageToken req)\<rparr> of
        Inl err \<Rightarrow> (\<lparr>NativeIDs = [], NextPageToken = None\<rparr>, None)
      | Inr resp \<Rightarrow>
          (\<lparr>NativeIDs = map RecordResponse.ID (Result resp),
            NextPageToken =
              (if int (length (Result resp)) = effective_page_size req
               then Some (FormatInt (wrap_int64 (ResultInfo_Page resp + 1)))
               else None)\<rparr>, None),
      [Call_Records_List
         \<lparr>RecordListParams.ZoneID = targetConfig.ZoneID cfg,
          PerPage = float64 (effective_page_size req),
          Page = requested_page pf (PageToken req)\<rparr>])"
    by (intro List_request_made) simp_all
  show "snd (List pf w req) =
        [Call_Records_List
           \<lparr>RecordListParams.ZoneID = targetConfig.ZoneID cfg,
            PerPage = float64 (effective_page_size req),
            Page = requested_page pf (PageToken req)\<rparr>]"
    unfolding made by simp
  assume r: "Records_List (cloudflare w)
           \<lparr>RecordListParams.ZoneID = targetConfig.ZoneID cfg,
            PerPage = float64 (effective_page_size req),
            Page = requested_page pf (PageToken req)\<rparr> = Inr resp"
  have res: "fst (fst (List pf w req)) =
      \<lparr>NativeIDs = map RecordResponse.ID (Result resp),
       NextPageToken =
         (if int (length (Result resp)) = effective_page_size req
          then Some (FormatInt (wrap_int64 (ResultInfo_Page resp + 1)))
          else None)\<rparr>"
    unfolding made by (simp add: r)
  show "NativeIDs (fst (fst (List pf w req))) = map RecordResponse.ID (Result resp)"
    unfolding res by simp
  show "(NextPageToken (fst (fst (List pf w req))) \<noteq> None) =
        (int (length (NativeIDs (fst (fst (List pf w req))))) = effective_page_size req)"
    unfolding res by simp
  assume t: "NextPageToken (fst (fst (List pf w req))) \<noteq> None"
  then show tok: "NextPageToken (fst (fst (List pf w req))) =
      Some (FormatInt (wrap_int64 (ResultInfo_Page resp + 1)))"
    unfolding res by (simp split: if_splits)
  assume "- (2 ^ 63) \<le> ResultInfo_Page resp \<and> ResultInfo_Page resp < 2 ^ 63 - 1"
  then have "wrap_int64 (ResultInfo_Page resp + 1) = ResultInfo_Page resp + 1"
    by (intro wrap_int64_id) simp_all
  with tok show "NextPageToken (fst (fst (List pf w req))) =
      Some (FormatInt (ResultInfo_Page resp + 1))"
    by simp
next
  assume h: "parseTargetConfig_direct (ListRequest.TargetConfig req) = Inr config \<and>
    NewWithAPIToken (TargetConfig.APIToken config) = Inr client \<and>
    ListDNSRecords client (TargetConfig.ZoneID config)
      \<lparr>ResultInfo = \<lparr>ResultInfo.Page = requested_page_direct Sscanf (PageToken req),
                      ResultInfo.PerPage = effective_page_size req,
                      TotalPages = 0\<rparr>\<rparr> = Inr (records, resultInfo)"
  then have h1: "parseTargetConfig_direct (ListRequest.TargetConfig req) = Inr config"
    and h2: "NewWithAPIToken (TargetConfig.APIToken config) = Inr client"
    and h3: "ListDNSRecords client (TargetConfig.ZoneID config)
      \<lparr>ResultInfo = \<lparr>ResultInfo.Page = requested_page_direct Sscanf (PageToken req),
                      ResultInfo.PerPage = effective_page_size req,
                      TotalPages = 0\<rparr>\<rparr> = Inr (records, resultInfo)"
    by blast+
  have d: "List_direct Sscanf NewWithAPIToken req =
     (\<lparr>NativeIDs = map cloudflare_DNSRecord.ID records,
       NextPageToken =
         (case resultInfo of
            None \<Rightarrow> None
          | Some info \<Rightarrow>
              if ResultInfo.Page info < TotalPages info
              then Some (FormatInt (wrap_int64 (ResultInfo.Page info + 1)))
              else None)\<rparr>, None)"
    by (rule List_direct_answer [where NewWithAPIToken = NewWithAPIToken and Sscanf = Sscanf,
          OF h1 h2 h3])
  show "snd (List_direct Sscanf NewWithAPIToken req) = None"
    unfolding d by simp
  show "NativeIDs (fst (List_direct Sscanf NewWithAPIToken req)) =
        map cloudflare_DNSRecord.ID records"
    unfolding d by simp
  show "(NextPageToken (fst (List_direct Sscanf NewWithAPIToken req)) \<noteq> None) =
        (\<exists>info. resultInfo = Some info \<and> ResultInfo.Page info < TotalPages info)"
    unfolding d by (simp split: option.splits)
  fix info
  assume "resultInfo = Some info \<and> ResultInfo.Page info < TotalPages info"
  then show "NextPageToken (fst (List_direct Sscanf NewWithAPIToken req)) =
           Some (FormatInt (wrap_int64 (ResultInfo.Page info + 1)))"
    unfolding d by simp
qed (rule five_records_pages)+

theorem List_pagination_witness:
  "snd (List decimal_ParseFloat (example_world hundred_records) (list_request None 0)) =
     [Call_Records_List \<lparr>RecordListParams.ZoneID = ''zone-1'', PerPage = 100, Page = None\<rparr>] \<and>
   length (NativeIDs (fst (fst (List decimal_ParseFloat (example_world hundred_records)
       (list_request None 0))))) = 100 \<and>
   NextPageToken (fst (fst (List decimal_ParseFloat (example_world hundred_records)
       (list_request None 0)))) = Some ''2'' \<and>
   NativeIDs (fst (List_direct decimal_Sscanf (example_NewWithAPIToken four_sdk_records)
       (direct_list_request None 2))) = [''r1'', ''r2''] \<and>
   NextPageToken (fst (List_direct decimal_Sscanf (example_NewWithAPIToken four_sdk_records)
       (direct_list_request None 2))) = Some ''2''"
proof -
  have cfg: "parseTargetConfig (ListRequest.TargetConfig (list_request None 0)) =
      Inr \<lparr>targetConfig.ZoneID = ''zone-1''\<rparr>"
    by code_simp
  have tok: "CLOUDFLARE_API_TOKEN (example_world hundred_records) \<noteq> []"
    by (simp add: example_world_def)
  have size: "effective_page_size (list_request None 0) = 100"
    by (simp add: effective_page_size_def list_request_def)
  have page: "requested_page decimal_ParseFloat (PageToken (list_request None 0)) = None"
    by (simp add: requested_page_def list_request_def)
  have len: "length hundred_records = 100"
    by (simp add: hundred_records_def)
  have answer: "Records_List (cloudflare (example_world hundred_records))
       \<lparr>RecordListParams.ZoneID = ''zone-1'', PerPage = 100, Page = None\<rparr> =
      Inr \<lparr>Result = hundred_records, ResultInfo_Page = 1\<rparr>"
    by (simp add: example_world_def example_provider_def len)
  have two: "FormatInt 2 = ''2''" "wrap_int64 2 = 2"
    by code_simp+
  from List_pagination [of "list_request None 0" "\<lparr>targetConfig.ZoneID = ''zone-1''\<rparr>"
      "example_world hundred_records" decimal_ParseFloat
      "\<lparr>Result = hundred_records, ResultInfo_Page = 1\<rparr>"]
    cfg tok answer
  have a: "snd (List decimal_ParseFloat (example_world hundred_records) (list_request None 0)) =
     [Call_Records_List \<lparr>RecordListParams.ZoneID = ''zone-1'', PerPage = 100, Page = None\<rparr>]"
    and b: "NativeIDs (fst (fst (List decimal_ParseFloat (example_world hundred_records)
       (list_request None 0)))) = map RecordResponse.ID hundred_records"
    and c: "NextPageToken (fst (fst (List decimal_ParseFloat (example_world hundred_records)
         (list_request None 0)))) \<noteq> None \<longleftrightarrow>
       int (length (NativeIDs (fst (fst (List decimal_ParseFloat (example_world hundred_records)
         (list_request None 0)))))) = 100"
    and d: "NextPageToken (fst (fst (List decimal_ParseFloat (example_world hundred_records)
         (list_request None 0)))) \<noteq> None \<longrightarrow>
       NextPageToken (fst (fst (List decimal_ParseFloat (example_world hundred_records)
         (list_request None 0)))) = Some (FormatInt (wrap_int64 (1 + 1)))"
    by (simp_all add: size page float64_def)
  from b len have l: "length (NativeIDs (fst (fst (List decimal_ParseFloat
      (example_world hundred_records) (list_request None 0))))) = 100"
    by simp
  with c d two have t: "NextPageToken (fst (fst (List decimal_ParseFloat
      (example_world hundred_records) (list_request None 0)))) = Some ''2''"
    by simp
  have dcfg: "parseTargetConfig_direct (ListRequest.TargetConfig (direct_list_request None 2)) =
      Inr \<lparr>TargetConfig.APIToken = ''token'', TargetConfig.ZoneID = ''zone-1''\<rparr>"
    by code_simp
  have dclient: "example_NewWithAPIToken four_sdk_records ''token'' =
      Inr (example_api four_sdk_records)"
    by (simp add: example_NewWithAPIToken_def)
  have dsize: "effective_page_size (direct_list_request None 2) = 2"
    by (simp add: effective_page_size_def direct_list_request_def)
  have dpage: "requested_page_direct decimal_Sscanf (PageToken (direct_list_request None 2)) = 1"
    by (simp add: requested_page_direct_def direct_list_request_def)
  have danswer: "ListDNSRecords (example_api four_sdk_records) ''zone-1''
      \<lparr>ResultInfo = \<lparr>ResultInfo.Page = 1, ResultInfo.PerPage = 2, TotalPages = 0\<rparr>\<rparr> =
      Inr ([sdk_record ''r1'', sdk_record ''r2''],
           Some \<lparr>ResultInfo.Page = 1, ResultInfo.PerPage = 2, TotalPages = 2\<rparr>)"
    by code_simp
  have ids: "map cloudflare_DNSRecord.ID [sdk_record ''r1'', sdk_record ''r2''] = [''r1'', ''r2'']"
    by (simp add: sdk_record_def)
  have dclient': "example_NewWithAPIToken four_sdk_records
      (TargetConfig.APIToken \<lparr>TargetConfig.APIToken = ''token'', TargetConfig.ZoneID = ''zone-1''\<rparr>) =
      Inr (example_api four_sdk_records)"
    using dclient by simp
  have danswer': "ListDNSRecords (example_api four_sdk_records)
      (TargetConfig.ZoneID \<lparr>TargetConfig.APIToken = ''token'', TargetConfig.ZoneID = ''zone-1''\<rparr>)
      \<lparr>ResultInfo =
         \<lparr>ResultInfo.Page =
            requested_page_direct decimal_Sscanf (PageToken (direct_list_request None 2)),
          ResultInfo.PerPage = effective_page_size (direct_list_request None 2),
          TotalPages = 0\<rparr>\<rparr> =
      Inr ([sdk_record ''r1'', sdk_record ''r2''],
           Some \<lparr>ResultInfo.Page = 1, ResultInfo.PerPage = 2, TotalPages = 2\<rparr>)"
    using danswer by (simp add: dsize dpage)
  have below: "ResultInfo.Page \<lparr>ResultInfo.Page = 1, ResultInfo.PerPage = 2, TotalPages = 2\<rparr> <
      TotalPages \<lparr>ResultInfo.Page = 1, ResultInfo.PerPage = 2, TotalPages = 2\<rparr>"
    by simp
  from List_pagination [of "direct_list_request None 2"
      "\<lparr>targetConfig.ZoneID = ''zone-1''\<rparr>" "example_world hundred_records"
      decimal_ParseFloat "\<lparr>Result = hundred_records, ResultInfo_Page = 1\<rparr>"
      "\<lparr>TargetConfig.APIToken = ''token'', TargetConfig.ZoneID = ''zone-1''\<rparr>"
      "example_NewWithAPIToken four_sdk_records" "example_api four_sdk_records"
      decimal_Sscanf "[sdk_record ''r1'', sdk_record ''r2'']"
      "Some \<lparr>ResultInfo.Page = 1, ResultInfo.PerPage = 2, TotalPages = 2\<rparr>"]
    dcfg dclient' danswer' below
  have e0: "NativeIDs (fst (List_direct decimal_Sscanf (example_NewWithAPIToken four_sdk_records)
       (direct_list_request None 2))) =
       map cloudflare_DNSRecord.ID [sdk_record ''r1'', sdk_record ''r2'']"
    and f0: "NextPageToken (fst (List_direct decimal_Sscanf (example_NewWithAPIToken four_sdk_records)
       (direct_list_request None 2))) =
       Some (FormatInt (wrap_int64
         (ResultInfo.Page \<lparr>ResultInfo.Page = 1, ResultInfo.PerPage = 2, TotalPages = 2\<rparr> + 1)))"
    by blast+
  from e0 ids have e: "NativeIDs (fst (List_direct decimal_Sscanf
       (example_NewWithAPIToken four_sdk_records) (direct_list_request None 2))) = [''r1'', ''r2'']"
    by simp
  from f0 have f: "NextPageToken (fst (List_direct decimal_Sscanf
       (example_NewWithAPIToken four_sdk_records) (direct_list_request None 2))) =
       Some (FormatInt (wrap_int64 (1 + 1)))"
    by simp
  from a l t e f two show ?thesis by simp
qed

text \<open>
  The claim as written gives every List call a token exactly when the page is full. The
  older List, asked for the second page of four records with page size 2, returns a full
  page of two records and no token: the provider reports page 2 of 2.
\<close>

theorem List_direct_full_page_counterexample:
  "List_direct decimal_Sscanf (example_NewWithAPIToken four_sdk_records)
       (direct_list_request (Some ''2'') 2) =
     (\<lparr>NativeIDs = [''r3'', ''r4''], NextPageToken = None\<rparr>, None) \<and>
   effective_page_size (direct_list_request (Some ''2'') 2) = 2"
  by code_simp

lemma List_error_nil: "snd (fst (List pf w req)) = None"
  by (simp add: List_def Let_def split: sum.splits prod.splits)

lemma List_provider_answer:
  assumes c: "snd (List pf w req) = [Call_Records_List params]"
  shows "fst (List pf w req) =
       (case Records_List (cloudflare w) params of
          Inl err \<Rightarrow> (\<lparr>NativeIDs = [], NextPageToken = None\<rparr>, None)
        | Inr resp \<Rightarrow>
            (\<lparr>NativeIDs = map RecordResponse.ID (Result resp),
              NextPageToken =
                (if int (length (Result resp)) = (if PageSize req > 0 then PageSize req else 100)
                 then Some (FormatInt (wrap_int64 (ResultInfo_Page resp + 1)))
                 else None)\<rparr>, None))"
proof -
  have "snd (List pf w req) \<noteq> []" using c by simp
  then obtain cfg where cfg: "parseTargetConfig (ListRequest.TargetConfig req) = Inr cfg"
    "targetConfig.ZoneID cfg \<noteq> []" "CLOUDFLARE_API_TOKEN w \<noteq> []"
    by (rule List_reached)
  note calls = List_called(1) [OF cfg, of pf]
  note res = List_called(2) [OF cfg, of pf]
  from ListRecords_calls [of pf "\<lparr>api = cloudflare w\<rparr>" "targetConfig.ZoneID cfg" "PageToken req" "PageSize req"]
  obtain params' where
    c': "snd (ListRecords pf \<lparr>api = cloudflare w\<rparr> (targetConfig.ZoneID cfg) (PageToken req) (PageSize req)) =
           [Call_Records_List params']"
    and r': "fst (ListRecords pf \<lparr>api = cloudflare w\<rparr> (targetConfig.ZoneID cfg) (PageToken req) (PageSize req)) =
       (case Records_List (cloudflare w) params' of
          Inl err \<Rightarrow> Inl err
        | Inr resp \<Rightarrow>
            Inr (map (\<lambda>r. recordFromListItem r (targetConfig.ZoneID cfg)) (Result resp),
                 if int (length (Result resp)) = (if PageSize req > 0 then PageSize req else 100)
                 then Some (FormatInt (wrap_int64 (ResultInfo_Page resp + 1)))
                 else None))"
    by (auto simp del: split_paired_Ex)
  from calls c' c have eq: "params' = params" by simp
  show ?thesis
    unfolding res r' eq
    by (simp add: recordFromListItem_ID comp_def split: sum.splits)
qed

text \<open>
  Claim C9. List never returns an error. When the target configuration does not parse, the
  zone ID is missing, the client cannot be constructed or the provider call fails, the
  result is the empty list of native IDs without a next-page token: the result of listing
  a zone for which the provider returns no records.
\<close>

theorem List_never_fails:
  "snd (fst (List pf w req)) = None \<and>
   (isl (parseTargetConfig (ListRequest.TargetConfig req)) \<or>
    (\<exists>cfg. parseTargetConfig (ListRequest.TargetConfig req) = Inr cfg \<and>
           targetConfig.ZoneID cfg = []) \<or>
    isl (NewClient w) \<or>
    (\<exists>params err. snd (List pf w req) = [Call_Records_List params] \<and>
           Records_List (cloudflare w) params = Inl err) \<longrightarrow>
      fst (List pf w req) = (\<lparr>NativeIDs = [], NextPageToken = None\<rparr>, None)) \<and>
   ((\<exists>params resp. snd (List pf w req) = [Call_Records_List params] \<and>
        Records_List (cloudflare w) params = Inr resp \<and> Result resp = []) \<longrightarrow>
      fst (List pf w req) = (\<lparr>NativeIDs = [], NextPageToken = None\<rparr>, None))"
proof (intro conjI impI)
  show "snd (fst (List pf w req)) = None" by (rule List_error_nil)
next
  assume "isl (parseTargetConfig (ListRequest.TargetConfig req)) \<or>
    (\<exists>cfg. parseTargetConfig (ListRequest.TargetConfig req) = Inr cfg \<and>
           targetConfig.ZoneID cfg = []) \<or>
    isl (NewClient w) \<or>
    (\<exists>params err. snd (List pf w req) = [Call_Records_List params] \<and>
           Records_List (cloudflare w) params = Inl err)"
  then consider
      (early) "isl (parseTargetConfig (ListRequest.TargetConfig req)) \<or>
        (\<exists>cfg. parseTargetConfig (ListRequest.TargetConfig req) = Inr cfg \<and>
           targetConfig.ZoneID cfg = []) \<or> isl (NewClient w)"
    | (provider) params err where "snd (List pf w req) = [Call_Records_List params]"
        "Records_List (cloudflare w) params = Inl err"
    by blast
  then show "fst (List pf w req) = (\<lparr>NativeIDs = [], NextPageToken = None\<rparr>, None)"
  proof cases
    case early
    then show ?thesis by (simp add: List_uncalled)
  next
    case provider
    then show ?thesis by (simp add: List_provider_answer)
  qed
next
  assume "\<exists>params resp. snd (List pf w req) = [Call_Records_List params] \<and>
        Records_List (cloudflare w) params = Inr resp \<and> Result resp = []"
  then obtain params resp where "snd (List pf w req) = [Call_Records_List params]"
    "Records_List (cloudflare w) params = Inr resp" "Result resp = []"
    by blast
  then show "fst (List pf w req) = (\<lparr>NativeIDs = [], NextPageToken = None\<rparr>, None)"
    by (simp add: List_provider_answer)
qed

theorem List_never_fails_witness:
  "fst (List decimal_ParseFloat outage_world (list_request None 2)) =
     (\<lparr>NativeIDs = [], NextPageToken = None\<rparr>, None) \<and>
   fst (List decimal_ParseFloat no_token_world (list_request None 2)) =
     (\<lparr>NativeIDs = [], NextPageToken = None\<rparr>, None) \<and>
   fst (List decimal_ParseFloat (example_world five_records)
          \<lparr>ListRequest.TargetConfig = Some (JObject []), PageToken = None, PageSize = 2\<rparr>) =
     (\<lparr>NativeIDs = [], NextPageToken = None\<rparr>, None) \<and>
   fst (List decimal_ParseFloat (example_world five_records)
          \<lparr>ListRequest.TargetConfig = None, PageToken = None, PageSize = 2\<rparr>) =
     (\<lparr>NativeIDs = [], NextPageToken = None\<rparr>, None) \<and>
   fst (List decimal_ParseFloat (example_world []) (list_request None 2)) =
     (\<lparr>NativeIDs = [], NextPageToken = None\<rparr>, None)"
proof -
  have outage: "snd (List decimal_ParseFloat outage_world (list_request None 2)) =
       [Call_Records_List \<lparr>RecordListParams.ZoneID = ''zone-1'', PerPage = 2, Page = None\<rparr>] \<and>
     Records_List (cloudflare outage_world)
       \<lparr>RecordListParams.ZoneID = ''zone-1'', PerPage = 2, Page = None\<rparr> =
       Inl (CfError 503 ''Service Unavailable'')"
    by code_simp
  have no_token: "isl (NewClient no_token_world)"
    by code_simp
  have no_zone: "parseTargetConfig (ListRequest.TargetConfig
        \<lparr>ListRequest.TargetConfig = Some (JObject []), PageToken = None, PageSize = 2\<rparr>) =
      Inr \<lparr>targetConfig.ZoneID = []\<rparr>"
    by code_simp
  have malformed: "isl (parseTargetConfig (ListRequest.TargetConfig
        \<lparr>ListRequest.TargetConfig = None, PageToken = None, PageSize = 2\<rparr>))"
    by code_simp
  have empty_zone: "snd (List decimal_ParseFloat (example_world []) (list_request None 2)) =
       [Call_Records_List \<lparr>RecordListParams.ZoneID = ''zone-1'', PerPage = 2, Page = None\<rparr>] \<and>
     Records_List (cloudflare (example_world []))
       \<lparr>RecordListParams.ZoneID = ''zone-1'', PerPage = 2, Page = None\<rparr> =
       Inr \<lparr>Result = [], ResultInfo_Page = 1\<rparr>"
    by code_simp
  have "fst (List decimal_ParseFloat outage_world (list_request None 2)) =
     (\<lparr>NativeIDs = [], NextPageToken = None\<rparr>, None)"
    using List_never_fails [of decimal_ParseFloat outage_world "list_request None 2"] outage
    by blast
  moreover have "fst (List decimal_ParseFloat no_token_world (list_request None 2)) =
     (\<lparr>NativeIDs = [], NextPageToken = None\<rparr>, None)"
    using List_never_fails [of decimal_ParseFloat no_token_world "list_request None 2"] no_token
    by blast
  moreover have "fst (List decimal_ParseFloat (example_world five_records)
          \<lparr>ListRequest.TargetConfig = Some (JObject []), PageToken = None, PageSize = 2\<rparr>) =
     (\<lparr>NativeIDs = [], NextPageToken = None\<rparr>, None)"
    using List_never_fails [of decimal_ParseFloat "example_world five_records"
        "\<lparr>ListRequest.TargetConfig = Some (JObject []), PageToken = None, PageSize = 2\<rparr>"] no_zone
    by simp
  moreover have "fst (List decimal_ParseFloat (example_world five_records)
          \<lparr>ListRequest.TargetConfig = None, PageToken = None, PageSize = 2\<rparr>) =
     (\<lparr>NativeIDs = [], NextPageToken = None\<rparr>, None)"
    using List_never_fails [of decimal_ParseFloat "example_world five_records"
        "\<lparr>ListRequest.TargetConfig = None, PageToken = None, PageSize = 2\<rparr>"] malformed
    by blast
  moreover have "fst (List decimal_ParseFloat (example_world []) (list_request None 2)) =
     (\<lparr>NativeIDs = [], NextPageToken = None\<rparr>, None)"
  proof -
    have "Result \<lparr>Result = [], ResultInfo_Page = 1\<rparr> = []" by simp
    with List_never_fails [of decimal_ParseFloat "example_world []" "list_request None 2"] empty_zone
    show ?thesis by blast
  qed
  ultimately show ?thesis by blast
qed

subsection \<open>Delete\<close>

text \<open>
  Claim C2. When Delete reaches the provider and the provider's delete call returns an
  error, the result is a success if the error is an API error with status 404 (not found),
  and otherwise a failure that carries the classified error code. Delete itself returns no
  error.
\<close>

theorem Delete_not_found_is_success:
  "parseTargetConfig (DeleteRequest.TargetConfig req) = Inr cfg \<and>
   targetConfig.ZoneID cfg \<noteq> [] \<and> CLOUDFLARE_API_TOKEN w \<noteq> [] \<and>
   Records_Delete (cloudflare w) (DeleteRequest.NativeID req) (targetConfig.ZoneID cfg) = Some e \<longrightarrow>
     snd (Delete w req) =
       [Call_Records_Delete (DeleteRequest.NativeID req) (targetConfig.ZoneID cfg)] \<and>
     snd (fst (Delete w req)) = None \<and>
     (errors_As e = Some 404 \<longrightarrow>
        OperationStatus (fst (fst (Delete w req))) = OperationStatusSuccess) \<and>
     (errors_As e \<noteq> Some 404 \<longrightarrow>
        OperationStatus (fst (fst (Delete w req))) = OperationStatusFailure \<and>
        ErrorCode (fst (fst (Delete w req))) = MapErrorCode (Some e))"
  by (auto simp: Delete_def DeleteRecord_def NewClient_def IsNotFound_def Let_def
      split: option.splits)

theorem Delete_not_found_is_success_witness:
  "Records_Delete (cloudflare (example_world five_records)) ''r9'' ''zone-1'' = Some not_found \<and>
   errors_As not_found = Some 404 \<and>
   OperationStatus (fst (fst (Delete (example_world five_records) (delete_request ''r9'')))) =
     OperationStatusSuccess \<and>
   Records_Delete (cloudflare delete_outage_world) ''r1'' ''zone-1'' =
     Some (CfError 503 ''Service Unavailable'') \<and>
   OperationStatus (fst (fst (Delete delete_outage_world (delete_request ''r1'')))) =
     OperationStatusFailure \<and>
   ErrorCode (fst (fst (Delete delete_outage_world (delete_request ''r1'')))) =
     OperationErrorCodeServiceInternalError"
proof -
  have cfg9: "parseTargetConfig (DeleteRequest.TargetConfig (delete_request ''r9'')) =
      Inr \<lparr>targetConfig.ZoneID = ''zone-1''\<rparr>"
    by code_simp
  have cfg1: "parseTargetConfig (DeleteRequest.TargetConfig (delete_request ''r1'')) =
      Inr \<lparr>targetConfig.ZoneID = ''zone-1''\<rparr>"
    by code_simp
  have tok: "CLOUDFLARE_API_TOKEN (example_world five_records) \<noteq> []"
    "CLOUDFLARE_API_TOKEN delete_outage_world \<noteq> []"
    by (simp_all add: example_world_def delete_outage_world_def)
  have gone: "Records_Delete (cloudflare (example_world five_records)) ''r9'' ''zone-1'' =
      Some not_found"
    by code_simp
  have down: "Records_Delete (cloudflare delete_outage_world) ''r1'' ''zone-1'' =
      Some (CfError 503 ''Service Unavailable'')"
    by code_simp
  have nf: "errors_As not_found = Some 404"
    by (simp add: not_found_def)
  have code: "MapErrorCode (Some (CfError 503 ''Service Unavailable'')) =
      OperationErrorCodeServiceInternalError"
    by (simp add: MapErrorCode_def)
  have ids: "DeleteRequest.NativeID (delete_request ''r9'') = ''r9''"
    "DeleteRequest.NativeID (delete_request ''r1'') = ''r1''"
    by (simp_all add: delete_request_def)
  from Delete_not_found_is_success [of "delete_request ''r9''"
      "\<lparr>targetConfig.ZoneID = ''zone-1''\<rparr>" "example_world five_records" not_found]
    cfg9 tok gone nf ids
  have a: "OperationStatus (fst (fst (Delete (example_world five_records) (delete_request ''r9'')))) =
     OperationStatusSuccess"
    by simp
  from Delete_not_found_is_success [of "delete_request ''r1''"
      "\<lparr>targetConfig.ZoneID = ''zone-1''\<rparr>" delete_outage_world
      "CfError 503 ''Service Unavailable''"]
    cfg1 tok down ids code
  have b: "OperationStatus (fst (fst (Delete delete_outage_world (delete_request ''r1'')))) =
     OperationStatusFailure \<and>
   ErrorCode (fst (fst (Delete delete_outage_world (delete_request ''r1'')))) =
     OperationErrorCodeServiceInternalError"
    by simp
  from a b gone down nf show ?thesis by blast
qed

subsection \<open>Create\<close>

lemma dnsRecordProperties_store_isl:
  "isl (dnsRecordProperties_store g v q) \<longleftrightarrow> \<not> dnsRecordProperties_accepts g v"
  unfolding dnsRecordProperties_store_def dnsRecordProperties_accepts_def
  by (cases v) (auto simp: isl_map_sum)


lemma dnsRecordProperties_store_RecordType:
  "dnsRecordProperties_store g v q = Inr q' \<Longrightarrow>
   dnsRecordProperties.RecordType q' =
     (if g = ''record_type'' \<and> v \<noteq> JNull then string_of v
      else dnsRecordProperties.RecordType q)"
  unfolding dnsRecordProperties_store_def
  by (cases v) (auto split: if_splits)

lemma CreateRecord_Inr:
  assumes "CreateRecord c r = (Inr created, calls)"
  obtains body resp where "record_body r = Inr body"
    and "calls = [Call_Records_New \<lparr>RecordNewParams.ZoneID = DNSRecord.ZoneID r, Body = body\<rparr>]"
    and "Records_New (api c) \<lparr>RecordNewParams.ZoneID = DNSRecord.ZoneID r, Body = body\<rparr> = Inr resp"
    and "created = recordFromResponse resp (DNSRecord.ZoneID r)"
  using assms by (auto simp: CreateRecord_def Let_def split: sum.splits)



lemma Create_success:
  assumes ok: "OperationStatus (fst (fst (Create w req))) = OperationStatusSuccess"
  obtains props created calls propsJSON where
    "json_Unmarshal dnsRecordProperties_fields dnsRecordProperties_store
       (Properties req) dnsRecordProperties_zero = Inr props"
    and "CLOUDFLARE_API_TOKEN w \<noteq> []"
    and "CreateRecord \<lparr>api = cloudflare w\<rparr>
           \<lparr>DNSRecord.ID = [],
            DNSRecord.ZoneID = dnsRecordProperties.ZoneID props,
            DNSRecord.Name = dnsRecordProperties.Name props,
            DNSRecord.RecordType = dnsRecordProperties.RecordType props,
            DNSRecord.Content = dnsRecordProperties.Content props,
            DNSRecord.TTL = dnsRecordProperties.TTL props,
            DNSRecord.Proxied = dnsRecordProperties.Proxied props,
            DNSRecord.Comment = dnsRecordProperties.Comment props,
            DNSRecord.Priority = dnsRecordProperties.Priority props\<rparr> = (Inr created, calls)"
    and "json_Marshal
           \<lparr>dnsRecordProperties.ID = DNSRecord.ID created,
            dnsRecordProperties.ZoneID = DNSRecord.ZoneID created,
            dnsRecordProperties.Name = dnsRecordProperties.Name props,
            dnsRecordProperties.RecordType = DNSRecord.RecordType created,
            dnsRecordProperties.Content = DNSRecord.Content created,
            dnsRecordProperties.TTL = DNSRecord.TTL created,
            dnsRecordProperties.Proxied = DNSRecord.Proxied created,
            dnsRecordProperties.Comment = DNSRecord.Comment created,
            dnsRecordProperties.Priority = DNSRecord.Priority created\<rparr> = Inr propsJSON"
    and "snd (Create w req) = calls"
    and "ProgressResult.NativeID (fst (fst (Create w req))) = DNSRecord.ID created"
    and "ResourceProperties (fst (fst (Create w req))) = Some propsJSON"
  using ok
  by (auto simp: Create_def NewClient_def Let_def split: sum.splits prod.splits if_splits)





subsection \<open>Provider responses\<close>

lemma recordFromResponse_Priority:
  "DNSRecord.Priority (recordFromResponse resp zoneID) =
     (if RecordResponse.Priority resp \<noteq> 0 then Some (int64 (RecordResponse.Priority resp)) else None)"
  by (simp add: recordFromResponse_def Let_def)

lemma recordFromResponse_Comment:
  "DNSRecord.Comment (recordFromResponse resp zoneID) = RecordResponse.Comment resp"
  by (simp add: recordFromResponse_def Let_def)

lemma recordFromListItem_Priority:
  "DNSRecord.Priority (recordFromListItem resp zoneID) =
     (if RecordResponse.Priority resp \<noteq> 0 then Some (int64 (RecordResponse.Priority resp)) else None)"
  by (simp add: recordFromListItem_def Let_def)

lemma recordToProperties_Comment:
  "DNSRecordProperties.Comment (recordToProperties record zoneName) =
     (if cloudflare_DNSRecord.Comment record \<noteq> [] then Some (cloudflare_DNSRecord.Comment record)
      else None)"
  by (simp add: recordToProperties_def Let_def split: option.splits)

lemma recordToProperties_Priority:
  "DNSRecordProperties.Priority (recordToProperties record zoneName) =
     cloudflare_DNSRecord.Priority record"
  by (simp add: recordToProperties_def Let_def split: option.splits)

lemma json_Marshal_optional:
  "json_Marshal p = Inr j \<Longrightarrow>
   \<exists>out. j = JObject out \<and>
     map_of out ''priority'' = map_option JInt (dnsRecordProperties.Priority p) \<and>
     map_of out ''comment'' =
       (if dnsRecordProperties.Comment p = [] then None
        else Some (JString (dnsRecordProperties.Comment p)))"
  by (auto simp: json_Marshal_def split: option.splits)

lemma Create_reports_response:
  assumes ok: "OperationStatus (fst (fst (Create w req))) = OperationStatusSuccess"
    and c: "snd (Create w req) = [Call_Records_New params]"
    and r: "Records_New (cloudflare w) params = Inr resp"
  shows "\<exists>out. ResourceProperties (fst (fst (Create w req))) = Some (JObject out) \<and>
     map_of out ''priority'' =
       (if RecordResponse.Priority resp \<noteq> 0
        then Some (JInt (int64 (RecordResponse.Priority resp))) else None) \<and>
     map_of out ''comment'' =
       (if RecordResponse.Comment resp = [] then None
        else Some (JString (RecordResponse.Comment resp)))"
proof -
  from ok obtain props created calls propsJSON where
    "json_Unmarshal dnsRecordProperties_fields dnsRecordProperties_store
       (Properties req) dnsRecordProperties_zero = Inr props"
    and "CLOUDFLARE_API_TOKEN w \<noteq> []"
    and cr: "CreateRecord \<lparr>api = cloudflare w\<rparr>
           \<lparr>DNSRecord.ID = [],
            DNSRecord.ZoneID = dnsRecordProperties.ZoneID props,
            DNSRecord.Name = dnsRecordProperties.Name props,
            DNSRecord.RecordType = dnsRecordProperties.RecordType props,
            DNSRecord.Content = dnsRecordProperties.Content props,
            DNSRecord.TTL = dnsRecordProperties.TTL props,
            DNSRecord.Proxied = dnsRecordProperties.Proxied props,
            DNSRecord.Comment = dnsRecordProperties.Comment props,
            DNSRecord.Priority = dnsRecordProperties.Priority props\<rparr> = (Inr created, calls)"
    and ma: "json_Marshal
           \<lparr>dnsRecordProperties.ID = DNSRecord.ID created,
            dnsRecordProperties.ZoneID = DNSRecord.ZoneID created,
            dnsRecordProperties.Name = dnsRecordProperties.Name props,
            dnsRecordProperties.RecordType = DNSRecord.RecordType created,
            dnsRecordProperties.Content = DNSRecord.Content created,
            dnsRecordProperties.TTL = DNSRecord.TTL created,
            dnsRecordProperties.Proxied = DNSRecord.Proxied created,
            dnsRecordProperties.Comment = DNSRecord.Comment created,
            dnsRecordProperties.Priority = DNSRecord.Priority created\<rparr> = Inr propsJSON"
    and calls: "snd (Create w req) = calls"
    and "ProgressResult.NativeID (fst (fst (Create w req))) = DNSRecord.ID created"
    and rp: "ResourceProperties (fst (fst (Create w req))) = Some propsJSON"
    by (rule Create_success)
  from cr obtain body resp' where
    "record_body
           \<lparr>DNSRecord.ID = [],
            DNSRecord.ZoneID = dnsRecordProperties.ZoneID props,
            DNSRecord.Name = dnsRecordProperties.Name props,
            DNSRecord.RecordType = dnsRecordProperties.RecordType props,
            DNSRecord.Content = dnsRecordProperties.Content props,
            DNSRecord.TTL = dnsRecordProperties.TTL props,
            DNSRecord.Proxied = dnsRecordProperties.Proxied props,
            DNSRecord.Comment = dnsRecordProperties.Comment props,
            DNSRecord.Priority = dnsRecordProperties.Priority props\<rparr> = Inr body"
    and c': "calls = [Call_Records_New
        \<lparr>RecordNewParams.ZoneID = dnsRecordProperties.ZoneID props, Body = body\<rparr>]"
    and r': "Records_New (cloudflare w)
        \<lparr>RecordNewParams.ZoneID = dnsRecordProperties.ZoneID props, Body = body\<rparr> = Inr resp'"
    and created: "created = recordFromResponse resp' (dnsRecordProperties.ZoneID props)"
    by (rule CreateRecord_Inr) simp
  from c c' calls r r' have "resp' = resp" by simp
  with created have created': "created = recordFromResponse resp (dnsRecordProperties.ZoneID props)"
    by simp
  from json_Marshal_optional [OF ma] rp show ?thesis
    unfolding created'
    by (auto simp: recordFromResponse_Priority recordFromResponse_Comment)
qed

text \<open>
  Claim C10, as the code has it. A response of the client's provider whose priority is 0,
  omitted by the provider or genuinely 0, is converted to a record without priority, by
  \<open>recordFromResponse\<close> and \<open>recordFromListItem\<close> alike, so that the properties a
  successful Create reports for it have no priority member; an empty comment is left out
  of them likewise. \<open>recordToProperties\<close>, on the older SDK's record with its pointer
  priority, reports an empty comment as absent too, but reports the priority as the
  provider gave it: absent when the provider omitted it, present when it is 0.
\<close>

theorem zero_priority_reported_absent:
  "(RecordResponse.Priority resp = 0 \<longrightarrow>
      DNSRecord.Priority (recordFromResponse resp zoneID) = None \<and>
      DNSRecord.Priority (recordFromListItem resp zoneID) = None) \<and>
   (OperationStatus (fst (fst (Create w req))) = OperationStatusSuccess \<and>
    snd (Create w req) = [Call_Records_New params] \<and>
    Records_New (cloudflare w) params = Inr resp \<longrightarrow>
      (\<exists>out. ResourceProperties (fst (fst (Create w req))) = Some (JObject out) \<and>
         (RecordResponse.Priority resp = 0 \<longrightarrow> map_of out ''priority'' = None) \<and>
         (RecordResponse.Comment resp = [] \<longrightarrow> map_of out ''comment'' = None))) \<and>
   (cloudflare_DNSRecord.Comment record = [] \<longrightarrow>
      DNSRecordProperties.Comment (recordToProperties record zoneName) = None) \<and>
   DNSRecordProperties.Priority (recordToProperties record zoneName) =
     cloudflare_DNSRecord.Priority record"
proof (intro conjI impI)
  assume "OperationStatus (fst (fst (Create w req))) = OperationStatusSuccess \<and>
    snd (Create w req) = [Call_Records_New params] \<and>
    Records_New (cloudflare w) params = Inr resp"
  then have ok: "OperationStatus (fst (fst (Create w req))) = OperationStatusSuccess"
    and c: "snd (Create w req) = [Call_Records_New params]"
    and r: "Records_New (cloudflare w) params = Inr resp"
    by blast+
  note Create_reports_response [OF ok c r]
  then show "\<exists>out. ResourceProperties (fst (fst (Create w req))) = Some (JObject out) \<and>
         (RecordResponse.Priority resp = 0 \<longrightarrow> map_of out ''priority'' = None) \<and>
         (RecordResponse.Comment resp = [] \<longrightarrow> map_of out ''comment'' = None)"
    by auto
qed (simp_all add: recordFromResponse_Priority recordFromListItem_Priority
    recordToProperties_Comment recordToProperties_Priority)

theorem zero_priority_reported_absent_witness:
  "RecordResponse.Type mx_response = ''MX'' \<and> RecordResponse.Priority mx_response = 0 \<and>
   DNSRecord.Priority (recordFromResponse mx_response ''zone-1'') = None \<and>
   cloudflare_DNSRecord.Comment apex_txt_record = [] \<and>
   DNSRecordProperties.Comment (recordToProperties apex_txt_record ''example.com'') = None \<and>
   OperationStatus (fst (fst (Create (example_world []) create_mx_request))) =
     OperationStatusSuccess \<and>
   (\<exists>out. ResourceProperties (fst (fst (Create (example_world []) create_mx_request))) =
       Some (JObject out) \<and>
     map_of out ''priority'' = None \<and> map_of out ''comment'' = None)"
proof -
  have p: "RecordResponse.Type mx_response = ''MX''" "RecordResponse.Priority mx_response = 0"
    by (simp_all add: mx_response_def)
  have c: "cloudflare_DNSRecord.Comment apex_txt_record = []"
    by (simp add: apex_txt_record_def)
  have ok: "OperationStatus (fst (fst (Create (example_world []) create_mx_request))) =
     OperationStatusSuccess"
    by code_simp
  have call: "snd (Create (example_world []) create_mx_request) =
     [Call_Records_New \<lparr>RecordNewParams.ZoneID = ''zone-1'',
        Body = MXRecordParam ''@'' ''mail.example.com'' 300 0 []\<rparr>]"
    by code_simp
  have resp: "Records_New (cloudflare (example_world []))
        \<lparr>RecordNewParams.ZoneID = ''zone-1'',
         Body = MXRecordParam ''@'' ''mail.example.com'' 300 0 []\<rparr> =
      Inr (body_response ''rec-new'' (MXRecordParam ''@'' ''mail.example.com'' 300 0 []))"
    by code_simp
  have zero: "RecordResponse.Priority
       (body_response ''rec-new'' (MXRecordParam ''@'' ''mail.example.com'' 300 0 [])) = 0"
    "RecordResponse.Comment
       (body_response ''rec-new'' (MXRecordParam ''@'' ''mail.example.com'' 300 0 [])) = []"
    by (simp_all add: body_response_def)
  from zero_priority_reported_absent [of mx_response "''zone-1''" "example_world []"
      create_mx_request "\<lparr>RecordNewParams.ZoneID = ''zone-1'',
         Body = MXRecordParam ''@'' ''mail.example.com'' 300 0 []\<rparr>" apex_txt_record
      "''example.com''"] p c
  have a: "DNSRecord.Priority (recordFromResponse mx_response ''zone-1'') = None"
    and b: "DNSRecordProperties.Comment (recordToProperties apex_txt_record ''example.com'') = None"
    by simp_all
  from zero_priority_reported_absent [of
      "body_response ''rec-new'' (MXRecordParam ''@'' ''mail.example.com'' 300 0 [])"
      "''zone-1''" "example_world []" create_mx_request
      "\<lparr>RecordNewParams.ZoneID = ''zone-1'',
         Body = MXRecordParam ''@'' ''mail.example.com'' 300 0 []\<rparr>" apex_txt_record
      "''example.com''"] ok call resp zero
  have "\<exists>out. ResourceProperties (fst (fst (Create (example_world []) create_mx_request))) =
       Some (JObject out) \<and>
     map_of out ''priority'' = None \<and> map_of out ''comment'' = None"
    by simp
  with p c a b ok show ?thesis by blast
qed

text \<open>
  The claim as written has every zero priority reported as absent. \<open>recordToProperties\<close>
  tests the pointer, not the value: an MX record that the older SDK returns with the
  priority 0 keeps it.
\<close>

theorem recordToProperties_zero_priority_counterexample:
  "cloudflare_DNSRecord.Priority mx_zero_priority_record = Some 0 \<and>
   DNSRecordProperties.Priority (recordToProperties mx_zero_priority_record ''example.com'') =
     Some 0"
  by (simp add: mx_zero_priority_record_def recordToProperties_def Let_def)

end
